theory Spec2Isabelle
  imports Main
begin

section \<open>The chunking utility\<close>

text \<open>
  \<^verbatim>\<open>Database.js\<close> imports \<^verbatim>\<open>chunk\<close> from \<^verbatim>\<open>./utilities/chunk.js\<close>, a file that
  is not part of the sources at hand. Its only call sites are
  \<^verbatim>\<open>chunk(resources, this.bulkLimit)\<close> and \<^verbatim>\<open>chunk(operations, this.bulkLimit)\<close>.
\<close>

datatype chunk_error = InvalidSize

text \<open>
  Modelled from the spec: the body of \<^verbatim>\<open>chunk\<close> (utilities/chunk.js) is missing.
  The specification describes it as splitting the items into consecutive groups of at
  most \<open>size\<close> elements, in the original order, the last group possibly smaller, with an
  empty input giving no group at all. \<open>chunk_groups\<close> is that splitting for a positive
  size: it cuts \<open>size\<close> elements from the front until nothing is left.
\<close>

function chunk_groups :: "'a list \<Rightarrow> nat \<Rightarrow> 'a list list" where
  "chunk_groups items n =
     (if items = [] \<or> n = 0 then []
      else take n items # chunk_groups (drop n items) n)"
  by pat_completeness auto
termination
  by (relation "measure (\<lambda>(items, n). length items)") auto

declare chunk_groups.simps [simp del]

text \<open>
  Modelled from the spec: the contract of \<^verbatim>\<open>chunk\<close> (utilities/chunk.js, missing)
  names a size below 1 as its only failure mode; the failure is the value \<open>Inl InvalidSize\<close>.
\<close>

definition chunk :: "'a list \<Rightarrow> nat \<Rightarrow> chunk_error + 'a list list" where
  "chunk items n = (if n = 0 then Inl InvalidSize else Inr (chunk_groups items n))"

section \<open>Values, errors and provider messages\<close>

text \<open>
  The two containers bound in the constructor, \<^verbatim>\<open>this.data\<close> and \<^verbatim>\<open>this.metadata\<close>;
  \<^verbatim>\<open>this[container]\<close> selects one of them by its name.
\<close>

datatype container = Data | Metadata

fun container_name :: "container \<Rightarrow> string" where
  "container_name Data = ''data''"
| "container_name Metadata = ''metadata''"

text \<open>
  The value of an option such as \<^verbatim>\<open>options.user\<close>: the documented type is a string, and
  JavaScript lets it be undefined or null. \<open>truthy\<close> is the test of \<^verbatim>\<open>if (v)\<close> and
  \<open>template\<close> is the text that \<^verbatim>\<open>${ v }\<close> puts into a template literal.
\<close>

datatype js_value = Undefined | Null | Str string

fun truthy :: "js_value \<Rightarrow> bool" where
  "truthy Undefined = False"
| "truthy Null = False"
| "truthy (Str s) = (s \<noteq> [])"

fun template :: "js_value \<Rightarrow> string" where
  "template Undefined = ''undefined''"
| "template Null = ''null''"
| "template (Str s) = s"

text \<open>An error object as the code reads it: \<^verbatim>\<open>err.code\<close> (may be missing) and \<^verbatim>\<open>err.message\<close>.\<close>

record js_error =
  err_code :: "int option"
  err_message :: string

text \<open>
  What an operation throws instead of returning: the error thrown by \<^verbatim>\<open>validate\<close>, a
  rejection of a provider call that no \<^verbatim>\<open>catch\<close> handles, the TypeError of reading a
  property of \<^verbatim>\<open>undefined\<close>, a failure of \<^verbatim>\<open>chunk\<close>, and the error of the guard in \<^verbatim>\<open>delete()\<close> (its long
  message is left out).
\<close>

datatype thrown =
    ValidationError js_error
  | ProviderError js_error
  | TypeError
  | ChunkError chunk_error
  | ProductionDeleteGuard

text \<open>An item: an object with an optional \<^verbatim>\<open>id\<close>; the other properties are the extension.\<close>

record item =
  item_id :: "string option"

text \<open>
  A stored document as the development methods read it: \<^verbatim>\<open>language\<close> is missing
  (\<open>None\<close>) or an object whose \<^verbatim>\<open>id\<close> may itself be missing, and \<^verbatim>\<open>type\<close> may be missing.
\<close>

record document = item +
  item_language :: "string option option"
  item_type :: "string option"

datatype operationType = Create | Read | Delete

text \<open>
  An operation object: \<^verbatim>\<open>{ operationType, resourceBody }\<close> for a create,
  \<^verbatim>\<open>{ id, operationType, partitionKey }\<close> for a read.
\<close>

record 'i operation =
  operationType :: operationType
  op_resourceBody :: "'i option"
  op_id :: "string option"
  op_partitionKey :: "string option"

text \<open>One per-operation result of a batch or bulk call.\<close>

record 'i operation_response =
  statusCode :: int
  resourceBody :: "'i option"

text \<open>The response of \<^verbatim>\<open>items.batch\<close>: the aggregate \<^verbatim>\<open>code\<close> and the \<^verbatim>\<open>result\<close> list.\<close>

record 'i batch_response =
  code :: int
  result :: "'i operation_response list"

text \<open>The response of \<^verbatim>\<open>items.create\<close> and \<^verbatim>\<open>item.read\<close>.\<close>

record 'i item_response =
  resource :: "'i option"
  item_statusCode :: int

text \<open>A row of the aggregate query of \<^verbatim>\<open>count\<close>; the field read is \<^verbatim>\<open>$1\<close>.\<close>

record aggregate_row =
  dollar1 :: "int option"

text \<open>One element of the data of \<^verbatim>\<open>getMany\<close>: \<^verbatim>\<open>{ data, id, status }\<close>.\<close>

record 'i entry =
  entry_data :: "'i option"
  entry_id :: "string option"
  entry_status :: int

section \<open>The normalized response\<close>

text \<open>The shapes that the operations pass as \<^verbatim>\<open>data\<close>.\<close>

datatype 'i payload =
    Resource 'i
  | Resources "'i list"
  | Bodies "'i option list"
  | OperationResults "'i operation_response list"
  | Entries "'i entry list"
  | Count "int option"

record 'i response =
  data :: "'i payload option"
  message :: "string option"
  status :: "int option"

text \<open>
  Modelled from the spec: the class \<^verbatim>\<open>DatabaseResponse\<close> (DatabaseResponse.js) is missing.
  The specification describes its instances as \<^verbatim>\<open>{ data?, message?, status }\<close> with the
  status always present. The constructor is called with an object that may lack any of
  the three properties; \<^verbatim>\<open>count\<close> and the list queries pass no status, so the constructor
  supplies one. The specification does not say which: it is the parameter \<open>dflt\<close>.
\<close>

definition DatabaseResponse ::
  "int \<Rightarrow> 'i payload option \<Rightarrow> string option \<Rightarrow> int option \<Rightarrow> 'i response" where
  "DatabaseResponse dflt d m s =
     \<lparr>data = d, message = m, status = Some (case s of None \<Rightarrow> dflt | Some c \<Rightarrow> c)\<rparr>"

section \<open>The database instance, the provider and the record of its calls\<close>

text \<open>
  Every call that reaches the storage provider, with what it was given and how it
  settled (\<open>Inl\<close>: the promise was rejected).
\<close>

datatype 'i event =
    CreateCall container 'i "js_error + 'i item_response"
  | BatchCall container "'i operation list" "string option" "js_error + 'i batch_response"
  | BulkCall container "'i operation list" bool "js_error + 'i operation_response list"
  | ReadCall container string string "js_error + 'i item_response"
  | FetchAllCall container string "js_error + aggregate_row list"
  | IterateCall container string "js_error + 'i list list"
  | DatabaseDeleteCall "js_error + unit"
  | ReadAllCall container "js_error + 'i list"
  | CreateDatabaseCall string "js_error + unit"
  | CreateContainerCall string string "js_error + unit"

text \<open>
  The instance \<^verbatim>\<open>this\<close> with the modules it imports. The provider is the Cosmos DB
  client: each of its methods is a function of the provider's state \<open>'s\<close>, returning how the
  promise settled and the new state. \<open>items_create\<close> also returns the item as the provider
  left it, since a create may set \<^verbatim>\<open>id\<close> on the caller's object (the note at the top of
  the file). \<open>query_iterate\<close> gives the pages that the asynchronous iterator yields.
  The partition key given to \<^verbatim>\<open>items.batch\<close> may be undefined (\<^verbatim>\<open>seedMany\<close> computes it
  from the data), hence the option. \<open>items_readAll\<close> is \<^verbatim>\<open>items.readAll().fetchAll()\<close>; the
  two \<^verbatim>\<open>createIfNotExists\<close> are those of \<^verbatim>\<open>client.databases\<close> (by id) and of
  \<^verbatim>\<open>database.containers\<close> (by id and partition key path).
  \<open>types\<close> (types.js) and \<open>validate\<close> (validate.js) are not among the sources: they are
  taken as they come; \<open>validate d = Some e\<close> means that \<^verbatim>\<open>validate(d)\<close> throws \<open>e\<close>.
  \<open>default_status\<close> is the status that the constructor of \<^verbatim>\<open>DatabaseResponse\<close> supplies.
\<close>

record ('s, 'i) database =
  dbName :: string
  types :: "string \<Rightarrow> container option"
  validate :: "'i \<Rightarrow> js_error option"
  default_status :: int
  items_create :: "container \<Rightarrow> 'i \<Rightarrow> 's \<Rightarrow> ((js_error + 'i item_response) \<times> 'i) \<times> 's"
  items_batch ::
    "container \<Rightarrow> 'i operation list \<Rightarrow> string option \<Rightarrow> 's
       \<Rightarrow> (js_error + 'i batch_response) \<times> 's"
  items_bulk ::
    "container \<Rightarrow> 'i operation list \<Rightarrow> bool \<Rightarrow> 's
       \<Rightarrow> (js_error + 'i operation_response list) \<times> 's"
  item_read :: "container \<Rightarrow> string \<Rightarrow> string \<Rightarrow> 's \<Rightarrow> (js_error + 'i item_response) \<times> 's"
  query_fetchAll :: "container \<Rightarrow> string \<Rightarrow> 's \<Rightarrow> (js_error + aggregate_row list) \<times> 's"
  query_iterate :: "container \<Rightarrow> string \<Rightarrow> 's \<Rightarrow> (js_error + 'i list list) \<times> 's"
  database_delete :: "'s \<Rightarrow> (js_error + unit) \<times> 's"
  items_readAll :: "container \<Rightarrow> 's \<Rightarrow> (js_error + 'i list) \<times> 's"
  databases_createIfNotExists :: "string \<Rightarrow> 's \<Rightarrow> (js_error + unit) \<times> 's"
  containers_createIfNotExists :: "string \<Rightarrow> string \<Rightarrow> 's \<Rightarrow> (js_error + unit) \<times> 's"

record ('s, 'i) world =
  store :: 's
  events :: "'i event list"

text \<open>Cosmos DB's limit on bulk operations, the field \<^verbatim>\<open>bulkLimit = 100\<close>.\<close>

definition bulkLimit :: nat where
  "bulkLimit = 100"

text \<open>One awaited provider call: it runs on the store and is appended to the record.\<close>

definition dispatch ::
  "('s \<Rightarrow> 'r \<times> 's) \<Rightarrow> ('r \<Rightarrow> 'i event) \<Rightarrow> ('s, 'i) world \<Rightarrow> 'r \<times> ('s, 'i) world" where
  "dispatch f ev w =
     (case f (store w) of (r, s') \<Rightarrow> (r, \<lparr>store = s', events = events w @ [ev r]\<rparr>))"

text \<open>
  The text that \<^verbatim>\<open>${ this.bulkLimit }\<close> puts into the message: the number in decimal,
  most significant digit first.
\<close>

definition digit :: "nat \<Rightarrow> char" where
  "digit k = ''0123456789'' ! k"

fun decimal :: "nat \<Rightarrow> string" where
  "decimal n = (if n < 10 then [] else decimal (n div 10)) @ [digit (n mod 10)]"

declare decimal.simps [simp del]

section \<open>Development methods\<close>

text \<open>
  \<^verbatim>\<open>delete()\<close>: the guard throws for the production database before anything else
  happens; otherwise the database is deleted. The \<^verbatim>\<open>console.info\<close> lines are left out.
\<close>

definition delete :: "('s, 'i) database \<Rightarrow> ('s, 'i) world \<Rightarrow> (thrown + unit) \<times> ('s, 'i) world" where
  "delete db w =
     (if dbName db = ''digitallinguistics'' then (Inl ProductionDeleteGuard, w)
      else
        (case dispatch (database_delete db) DatabaseDeleteCall w of
           (Inl err, w') \<Rightarrow> (Inl (ProviderError err), w')
         | (Inr u, w') \<Rightarrow> (Inr (), w')))"

text \<open>
  \<^verbatim>\<open>seedOne(container, data)\<close>: after \<^verbatim>\<open>validate(data)\<close> the promise of the create is
  returned as it is, so the caller gets the provider's own response or its rejection.
\<close>

definition seedOne ::
  "('s, 'i) database \<Rightarrow> container \<Rightarrow> 'i \<Rightarrow> ('s, 'i) world
     \<Rightarrow> (thrown + 'i item_response) \<times> ('s, 'i) world" where
  "seedOne db container d w =
     (case validate db d of
        Some e \<Rightarrow> (Inl (ValidationError e), w)
      | None \<Rightarrow>
          (case dispatch (items_create db container d) (\<lambda>r. CreateCall container d (fst r)) w of
             ((Inl err, d'), w') \<Rightarrow> (Inl (ProviderError err), w')
           | ((Inr created, d'), w') \<Rightarrow> (Inr created, w')))"

text \<open>
  The loop of \<^verbatim>\<open>seedMany\<close> over the batches: every batch is awaited and its results are
  appended; the accumulated results are returned as they are.
\<close>

fun seedMany_batches ::
  "('s, 'i) database \<Rightarrow> container \<Rightarrow> string option \<Rightarrow> 'i operation list list
     \<Rightarrow> 'i operation_response list \<Rightarrow> ('s, 'i) world
     \<Rightarrow> (thrown + 'i operation_response list) \<times> ('s, 'i) world" where
  "seedMany_batches db container partitionKey [] results w = (Inr results, w)"
| "seedMany_batches db container partitionKey (batch # batches) results w =
     (case dispatch (items_batch db container batch partitionKey)
             (BatchCall container batch partitionKey) w of
        (Inl err, w') \<Rightarrow> (Inl (ProviderError err), w')
      | (Inr response, w') \<Rightarrow>
          seedMany_batches db container partitionKey batches (results @ result response) w')"

text \<open>
  \<^verbatim>\<open>seedMany(container, count, data)\<close>: the copy of the data loses its \<^verbatim>\<open>id\<close>; the
  partition key is \<^verbatim>\<open>copy.language?.id\<close> for the data container and \<^verbatim>\<open>copy.type\<close>
  otherwise; \<open>n\<close> stands for \<^verbatim>\<open>count\<close>, and a count below 1 gives no operation.
\<close>

definition seedMany ::
  "('s, 'z document_scheme) database \<Rightarrow> container \<Rightarrow> int \<Rightarrow> 'z document_scheme
     \<Rightarrow> ('s, 'z document_scheme) world
     \<Rightarrow> (thrown + 'z document_scheme operation_response list)
         \<times> ('s, 'z document_scheme) world" where
  "seedMany db container n d w =
     (case validate db d of
        Some e \<Rightarrow> (Inl (ValidationError e), w)
      | None \<Rightarrow>
          (let copy = d\<lparr>item_id := None\<rparr>;
               partitionKey =
                 (case container of
                    Data \<Rightarrow> (case item_language copy of None \<Rightarrow> None | Some l \<Rightarrow> l)
                  | Metadata \<Rightarrow> item_type copy);
               operations =
                 replicate (nat n)
                   \<lparr>operationType = Create, op_resourceBody = Some copy,
                    op_id = None, op_partitionKey = None\<rparr>
           in case chunk operations bulkLimit of
                Inl e \<Rightarrow> (Inl (ChunkError e), w)
              | Inr batches \<Rightarrow> seedMany_batches db container partitionKey batches [] w))"

text \<open>
  \<^verbatim>\<open>setup()\<close>: the database and then the two containers are created if they do not
  exist, each call awaited before the next. (The name \<open>setup\<close> is taken in Isabelle.)
\<close>

definition setup_database ::
  "('s, 'i) database \<Rightarrow> ('s, 'i) world \<Rightarrow> (thrown + unit) \<times> ('s, 'i) world" where
  "setup_database db w =
     (case dispatch (databases_createIfNotExists db (dbName db))
             (CreateDatabaseCall (dbName db)) w of
        (Inl err, w1) \<Rightarrow> (Inl (ProviderError err), w1)
      | (Inr database, w1) \<Rightarrow>
          (case dispatch (containers_createIfNotExists db ''data'' ''/language/id'')
                  (CreateContainerCall ''data'' ''/language/id'') w1 of
             (Inl err, w2) \<Rightarrow> (Inl (ProviderError err), w2)
           | (Inr u, w2) \<Rightarrow>
               (case dispatch (containers_createIfNotExists db ''metadata'' ''/type'')
                       (CreateContainerCall ''metadata'' ''/type'') w2 of
                  (Inl err, w3) \<Rightarrow> (Inl (ProviderError err), w3)
                | (Inr u', w3) \<Rightarrow> (Inr (), w3))))"

text \<open>
  The \<^verbatim>\<open>batch.map(item => ...)\<close> of \<^verbatim>\<open>clearContainer\<close>: one delete operation per item, with
  \<^verbatim>\<open>item.language.id\<close> as partition key in the data container and \<^verbatim>\<open>item.type\<close> otherwise.
  Reading \<^verbatim>\<open>id\<close> of a missing \<^verbatim>\<open>language\<close> throws.
\<close>

fun delete_operations ::
  "container \<Rightarrow> 'z document_scheme list \<Rightarrow> thrown + 'z document_scheme operation list" where
  "delete_operations container [] = Inr []"
| "delete_operations container (item # batch) =
     (case (case container of
              Data \<Rightarrow> (case item_language item of None \<Rightarrow> Inl TypeError | Some l \<Rightarrow> Inr l)
            | Metadata \<Rightarrow> Inr (item_type item)) of
        Inl t \<Rightarrow> Inl t
      | Inr partitionKey \<Rightarrow>
          (case delete_operations container batch of
             Inl t \<Rightarrow> Inl t
           | Inr operations \<Rightarrow>
               Inr (\<lparr>operationType = Delete, op_resourceBody = None, op_id = item_id item,
                     op_partitionKey = partitionKey\<rparr> # operations)))"

text \<open>The loop of \<^verbatim>\<open>clearContainer\<close> over the batches, each bulk call awaited in turn.\<close>

fun clearContainer_batches ::
  "('s, 'z document_scheme) database \<Rightarrow> container \<Rightarrow> 'z document_scheme list list
     \<Rightarrow> ('s, 'z document_scheme) world
     \<Rightarrow> (thrown + unit) \<times> ('s, 'z document_scheme) world" where
  "clearContainer_batches db container [] w = (Inr (), w)"
| "clearContainer_batches db container (batch # batches) w =
     (case delete_operations container batch of
        Inl t \<Rightarrow> (Inl t, w)
      | Inr operations \<Rightarrow>
          (case dispatch (items_bulk db container operations False)
                  (BulkCall container operations False) w of
             (Inl err, w') \<Rightarrow> (Inl (ProviderError err), w')
           | (Inr results, w') \<Rightarrow> clearContainer_batches db container batches w'))"

text \<open>
  \<^verbatim>\<open>clearContainer(container)\<close>: all items are read, cut into batches of the bulk limit and
  deleted batch by batch (\<^verbatim>\<open>bulk\<close> is called without options, so without
  \<^verbatim>\<open>continueOnError\<close>).
\<close>

definition clearContainer ::
  "('s, 'z document_scheme) database \<Rightarrow> container \<Rightarrow> ('s, 'z document_scheme) world
     \<Rightarrow> (thrown + unit) \<times> ('s, 'z document_scheme) world" where
  "clearContainer db container w =
     (case dispatch (items_readAll db container) (ReadAllCall container) w of
        (Inl err, w') \<Rightarrow> (Inl (ProviderError err), w')
      | (Inr resources, w') \<Rightarrow>
          (case chunk resources bulkLimit of
             Inl e \<Rightarrow> (Inl (ChunkError e), w')
           | Inr batches \<Rightarrow> clearContainer_batches db container batches w'))"

text \<open>
  \<^verbatim>\<open>clear()\<close> awaits \<^verbatim>\<open>Promise.all\<close> of the two runs \<^verbatim>\<open>clearContainer(`data`)\<close> and
  \<^verbatim>\<open>clearContainer(`metadata`)\<close>. The runs are concurrent: each one proceeds when the call
  it awaits is answered, and the code does not fix the order in which the answers of the
  two runs arrive. A run is therefore a state: waiting for the answer to
  \<^verbatim>\<open>readAll\<close>, waiting for the answer to a bulk call with the batches still to do, or
  settled. \<open>next_call\<close> is what a run does after an answer, up to its next \<^verbatim>\<open>await\<close>;
  \<open>clearing_step\<close> is the arrival of the answer a run waits for.
\<close>

datatype 'i clearing =
    Reading
  | Calling "'i operation list" "'i list list"
  | Settled "thrown + unit"

fun next_call :: "container \<Rightarrow> 'z document_scheme list list \<Rightarrow> 'z document_scheme clearing" where
  "next_call container [] = Settled (Inr ())"
| "next_call container (batch # batches) =
     (case delete_operations container batch of
        Inl t \<Rightarrow> Settled (Inl t)
      | Inr operations \<Rightarrow> Calling operations batches)"

fun clearing_step ::
  "('s, 'z document_scheme) database \<Rightarrow> container \<Rightarrow> 'z document_scheme clearing
     \<Rightarrow> ('s, 'z document_scheme) world
     \<Rightarrow> 'z document_scheme clearing \<times> ('s, 'z document_scheme) world" where
  "clearing_step db container Reading w =
     (case dispatch (items_readAll db container) (ReadAllCall container) w of
        (Inl err, w') \<Rightarrow> (Settled (Inl (ProviderError err)), w')
      | (Inr resources, w') \<Rightarrow>
          (case chunk resources bulkLimit of
             Inl e \<Rightarrow> (Settled (Inl (ChunkError e)), w')
           | Inr batches \<Rightarrow> (next_call container batches, w')))"
| "clearing_step db container (Calling operations batches) w =
     (case dispatch (items_bulk db container operations False)
             (BulkCall container operations False) w of
        (Inl err, w') \<Rightarrow> (Settled (Inl (ProviderError err)), w')
      | (Inr results, w') \<Rightarrow> (next_call container batches, w'))"
| "clearing_step db container (Settled r) w = (Settled r, w)"

text \<open>A run carried on alone until it settles.\<close>

fun clearing_finish ::
  "('s, 'z document_scheme) database \<Rightarrow> container \<Rightarrow> 'z document_scheme clearing
     \<Rightarrow> ('s, 'z document_scheme) world
     \<Rightarrow> (thrown + unit) \<times> ('s, 'z document_scheme) world" where
  "clearing_finish db container Reading w = clearContainer db container w"
| "clearing_finish db container (Calling operations batches) w =
     (case dispatch (items_bulk db container operations False)
             (BulkCall container operations False) w of
        (Inl err, w') \<Rightarrow> (Inl (ProviderError err), w')
      | (Inr results, w') \<Rightarrow> clearContainer_batches db container batches w')"
| "clearing_finish db container (Settled r) w = (r, w)"

text \<open>
  The two runs advanced in the order given by the schedule (\<open>True\<close>: the run on the data
  container gets its answer next). \<open>first\<close> is the first rejection among the two runs,
  which is the one \<^verbatim>\<open>Promise.all\<close> rejects with.
\<close>

fun clear_interleave ::
  "('s, 'z document_scheme) database \<Rightarrow> bool list
     \<Rightarrow> 'z document_scheme clearing \<Rightarrow> 'z document_scheme clearing \<Rightarrow> thrown option
     \<Rightarrow> ('s, 'z document_scheme) world
     \<Rightarrow> ('z document_scheme clearing \<times> 'z document_scheme clearing \<times> thrown option)
         \<times> ('s, 'z document_scheme) world" where
  "clear_interleave db [] t1 t2 first w = ((t1, t2, first), w)"
| "clear_interleave db (data_next # schedule) t1 t2 first w =
     (if data_next
      then (case clearing_step db Data t1 w of
              (t1', w') \<Rightarrow>
                clear_interleave db schedule t1' t2
                  (case first of
                     Some e \<Rightarrow> Some e
                   | None \<Rightarrow> (case t1' of Settled (Inl e) \<Rightarrow> Some e | _ \<Rightarrow> None)) w')
      else (case clearing_step db Metadata t2 w of
              (t2', w') \<Rightarrow>
                clear_interleave db schedule t1 t2'
                  (case first of
                     Some e \<Rightarrow> Some e
                   | None \<Rightarrow> (case t2' of Settled (Inl e) \<Rightarrow> Some e | _ \<Rightarrow> None)) w'))"

text \<open>
  \<^verbatim>\<open>clear()\<close>: the two runs advance as the schedule says; what is left of them when the
  schedule ends is carried on, the data run first. \<^verbatim>\<open>Promise.all\<close> cancels nothing, so
  both runs go on until they settle, and the world returned is the one after both; the
  result is the first rejection, or nothing when both runs are fulfilled. The option
  \<^verbatim>\<open>silent\<close> and the \<^verbatim>\<open>console.info\<close> lines are left out.
\<close>

definition clear ::
  "('s, 'z document_scheme) database \<Rightarrow> bool list \<Rightarrow> ('s, 'z document_scheme) world
     \<Rightarrow> (thrown + unit) \<times> ('s, 'z document_scheme) world" where
  "clear db schedule w =
     (case clear_interleave db schedule Reading Reading None w of
        ((t1, t2, first), w1) \<Rightarrow>
          (case clearing_finish db Data t1 w1 of
             (r1, w2) \<Rightarrow>
               (case clearing_finish db Metadata t2 w2 of
                  (r2, w3) \<Rightarrow>
                    ((case first of
                        Some e \<Rightarrow> Inl e
                      | None \<Rightarrow> (case r1 of Inl e \<Rightarrow> Inl e | Inr u \<Rightarrow> r2)), w3))))"

section \<open>Generic methods\<close>

text \<open>
  \<^verbatim>\<open>addOne(container, data)\<close>: \<^verbatim>\<open>validate(data)\<close> stands before the \<^verbatim>\<open>try\<close>, so what it
  throws leaves the method. Inside the \<^verbatim>\<open>try\<close>, a rejected create is caught and turned
  into a response; \<^verbatim>\<open>data.id\<close> is read after the create.
\<close>

definition addOne ::
  "('s, 'z item_scheme) database \<Rightarrow> container \<Rightarrow> 'z item_scheme
     \<Rightarrow> ('s, 'z item_scheme) world
     \<Rightarrow> (thrown + 'z item_scheme response) \<times> ('s, 'z item_scheme) world" where
  "addOne db container d w =
     (case validate db d of
        Some e \<Rightarrow> (Inl (ValidationError e), w)
      | None \<Rightarrow>
          (case dispatch (items_create db container d) (\<lambda>r. CreateCall container d (fst r)) w of
             ((Inr created, d'), w') \<Rightarrow>
               (Inr (DatabaseResponse (default_status db)
                       (map_option Resource (resource created)) None
                       (Some (item_statusCode created))), w')
           | ((Inl err, d'), w') \<Rightarrow>
               (let msg =
                      (if err_code err = Some 409
                       then ''Item with ID ''
                              @ (case item_id d' of None \<Rightarrow> ''undefined'' | Some i \<Rightarrow> i)
                              @ '' already exists.''
                       else err_message err)
                in (Inr (DatabaseResponse (default_status db) None (Some msg) (err_code err)),
                    w'))))"

text \<open>
  The loop of \<^verbatim>\<open>addMany\<close> over the batches, with the accumulated \<^verbatim>\<open>results\<close>: each batch
  is awaited before the next one; a response with code 207 returns at once; after the
  last batch the resource bodies of all results are returned with status 201.
\<close>

fun addMany_batches ::
  "('s, 'i) database \<Rightarrow> container \<Rightarrow> string \<Rightarrow> 'i operation list list
     \<Rightarrow> 'i operation_response list \<Rightarrow> ('s, 'i) world
     \<Rightarrow> (thrown + 'i response) \<times> ('s, 'i) world" where
  "addMany_batches db container partitionKey [] results w =
     (Inr (DatabaseResponse (default_status db)
             (Some (Bodies (map resourceBody results))) None (Some 201)), w)"
| "addMany_batches db container partitionKey (batch # batches) results w =
     (case dispatch (items_batch db container batch (Some partitionKey))
             (BatchCall container batch (Some partitionKey)) w of
        (Inl err, w') \<Rightarrow> (Inl (ProviderError err), w')
      | (Inr response, w') \<Rightarrow>
          if code response = 207
          then (Inr (DatabaseResponse (default_status db)
                       (Some (OperationResults (result response))) None (Some 207)), w')
          else addMany_batches db container partitionKey batches
                 (results @ result response) w')"

definition create_operations :: "'i list \<Rightarrow> 'i operation list" where
  "create_operations items =
     map (\<lambda>resourceBody.
            \<lparr>operationType = Create, op_resourceBody = Some resourceBody,
             op_id = None, op_partitionKey = None\<rparr>) items"

definition addMany ::
  "('s, 'i) database \<Rightarrow> container \<Rightarrow> string \<Rightarrow> 'i list \<Rightarrow> ('s, 'i) world
     \<Rightarrow> (thrown + 'i response) \<times> ('s, 'i) world" where
  "addMany db container partitionKey items w =
     (case chunk (create_operations items) bulkLimit of
        Inl e \<Rightarrow> (Inl (ChunkError e), w)
      | Inr batches \<Rightarrow> addMany_batches db container partitionKey batches [] w)"

text \<open>
  \<^verbatim>\<open>getOne(container, partition, id)\<close>: a point read; the provider's status code and
  resource are passed on.
\<close>

definition getOne ::
  "('s, 'i) database \<Rightarrow> container \<Rightarrow> string \<Rightarrow> string \<Rightarrow> ('s, 'i) world
     \<Rightarrow> (thrown + 'i response) \<times> ('s, 'i) world" where
  "getOne db container partition' ident w =
     (case dispatch (item_read db container ident partition')
             (ReadCall container ident partition') w of
        (Inl err, w') \<Rightarrow> (Inl (ProviderError err), w')
      | (Inr r, w') \<Rightarrow>
          (Inr (DatabaseResponse (default_status db) (map_option Resource (resource r)) None
                  (Some (item_statusCode r))), w'))"

text \<open>
  The \<^verbatim>\<open>results.map(({ resourceBody, statusCode }, i) => ...)\<close> of \<^verbatim>\<open>getMany\<close>: the i-th
  result is paired with \<^verbatim>\<open>operations[i].id\<close>. A result beyond the last operation reads
  \<^verbatim>\<open>id\<close> of \<^verbatim>\<open>undefined\<close>, which throws.
\<close>

fun getMany_entries ::
  "'i operation_response list \<Rightarrow> 'i operation list \<Rightarrow> thrown + 'i entry list" where
  "getMany_entries [] operations = Inr []"
| "getMany_entries (r # results) [] = Inl TypeError"
| "getMany_entries (r # results) (operation # operations) =
     (case getMany_entries results operations of
        Inl t \<Rightarrow> Inl t
      | Inr entries \<Rightarrow>
          Inr (\<lparr>entry_data = resourceBody r, entry_id = op_id operation,
                entry_status = statusCode r\<rparr> # entries))"

definition read_operations :: "string \<Rightarrow> string list \<Rightarrow> 'i operation list" where
  "read_operations partitionKey ids =
     map (\<lambda>id. \<lparr>operationType = Read, op_resourceBody = None,
                 op_id = Some id, op_partitionKey = Some partitionKey\<rparr>) ids"

definition getMany ::
  "('s, 'i) database \<Rightarrow> container \<Rightarrow> string \<Rightarrow> string list \<Rightarrow> ('s, 'i) world
     \<Rightarrow> (thrown + 'i response) \<times> ('s, 'i) world" where
  "getMany db container partitionKey ids w =
     (if length ids > bulkLimit
      then (Inr (DatabaseResponse (default_status db) None
                   (Some (''You can only retrieve '' @ decimal bulkLimit
                            @ '' items at a time.''))
                   (Some 400)), w)
      else
        (let operations = read_operations partitionKey ids
         in case dispatch (items_bulk db container operations True)
                   (BulkCall container operations True) w of
              (Inl err, w') \<Rightarrow> (Inl (ProviderError err), w')
            | (Inr results, w') \<Rightarrow>
                (case getMany_entries results operations of
                   Inl t \<Rightarrow> (Inl t, w')
                 | Inr entries \<Rightarrow>
                     (Inr (DatabaseResponse (default_status db) (Some (Entries entries)) None
                             (Some 207)), w'))))"

section \<open>Queries\<close>

text \<open>The options of \<^verbatim>\<open>count\<close>, \<^verbatim>\<open>getLanguages\<close> and \<^verbatim>\<open>getLexemes\<close>; a missing key reads as undefined.\<close>

record filter_options =
  language :: js_value
  project :: js_value

text \<open>
  The options of \<^verbatim>\<open>getProjects\<close>: \<open>None\<close> when the object has no \<^verbatim>\<open>user\<close> key
  (\<^verbatim>\<open>`user` in options\<close> is false), otherwise the value stored under the key.
\<close>

record project_options =
  user :: "js_value option"

text \<open>
  The loop \<^verbatim>\<open>for await (const result of queryIterator) data.push(...result.resources)\<close>
  followed by \<^verbatim>\<open>new DatabaseResponse({ data })\<close>, shared by the four list queries.
\<close>

definition list_query ::
  "('s, 'i) database \<Rightarrow> container \<Rightarrow> string \<Rightarrow> ('s, 'i) world
     \<Rightarrow> (thrown + 'i response) \<times> ('s, 'i) world" where
  "list_query db container query w =
     (case dispatch (query_iterate db container query) (IterateCall container query) w of
        (Inl err, w') \<Rightarrow> (Inl (ProviderError err), w')
      | (Inr pages, w') \<Rightarrow>
          (Inr (DatabaseResponse (default_status db) (Some (Resources (concat pages)))
                  None None), w'))"

text \<open>The clause that the \<^verbatim>\<open>project\<close> option appends, for the container named \<open>c\<close>.\<close>

definition project_clause :: "string \<Rightarrow> js_value \<Rightarrow> string" where
  "project_clause c p =
     '' AND EXISTS(\<newline>''
     @ ''        SELECT VALUE project\<newline>''
     @ ''        FROM project IN '' @ c @ ''.projects\<newline>''
     @ ''        WHERE project.id = '' @ [CHR 0x27] @ template p @ [CHR 0x27] @ ''\<newline>''
     @ ''      )''"

definition count_query :: "string \<Rightarrow> string \<Rightarrow> filter_options \<Rightarrow> string" where
  "count_query c type options =
     (let query = ''SELECT COUNT('' @ c @ '') FROM '' @ c @ '' WHERE '' @ c
                    @ ''.type = '' @ [CHR 0x27] @ type @ [CHR 0x27];
          query = (if truthy (language options)
                   then query @ '' AND '' @ c @ ''.language.id = '' @ [CHR 0x27]
                          @ template (language options) @ [CHR 0x27]
                   else query);
          query = (if truthy (project options)
                   then query @ project_clause c (project options) else query)
      in query)"

text \<open>
  \<^verbatim>\<open>count(type, options)\<close>: an unknown type gives the container \<^verbatim>\<open>undefined\<close>, and
  \<^verbatim>\<open>this[undefined].items\<close> throws; the first row of the result is destructured, which
  throws when there is no row.
\<close>

definition count ::
  "('s, 'i) database \<Rightarrow> string \<Rightarrow> filter_options \<Rightarrow> ('s, 'i) world
     \<Rightarrow> (thrown + 'i response) \<times> ('s, 'i) world" where
  "count db type options w =
     (let container = types db type;
          query = count_query (case container of None \<Rightarrow> ''undefined''
                                 | Some c \<Rightarrow> container_name c) type options
      in case container of
           None \<Rightarrow> (Inl TypeError, w)
         | Some c \<Rightarrow>
             (case dispatch (query_fetchAll db c query) (FetchAllCall c query) w of
                (Inl err, w') \<Rightarrow> (Inl (ProviderError err), w')
              | (Inr resources, w') \<Rightarrow>
                  (case resources of
                     [] \<Rightarrow> (Inl TypeError, w')
                   | row # rest \<Rightarrow>
                       (Inr (DatabaseResponse (default_status db)
                               (Some (Count (dollar1 row))) None None), w'))))"

section \<open>Type-specific methods\<close>

text \<open>The getters of one language, lexeme, project or reference are point reads.\<close>

definition getLanguage ::
  "('s, 'i) database \<Rightarrow> string \<Rightarrow> ('s, 'i) world \<Rightarrow> (thrown + 'i response) \<times> ('s, 'i) world" where
  "getLanguage db ident w = getOne db Metadata ''Language'' ident w"

definition getLexeme ::
  "('s, 'i) database \<Rightarrow> string \<Rightarrow> string \<Rightarrow> ('s, 'i) world
     \<Rightarrow> (thrown + 'i response) \<times> ('s, 'i) world" where
  "getLexeme db lang ident w = getOne db Data lang ident w"

definition getProject ::
  "('s, 'i) database \<Rightarrow> string \<Rightarrow> ('s, 'i) world \<Rightarrow> (thrown + 'i response) \<times> ('s, 'i) world" where
  "getProject db ident w = getOne db Metadata ''Project'' ident w"

definition getReference ::
  "('s, 'i) database \<Rightarrow> string \<Rightarrow> ('s, 'i) world \<Rightarrow> (thrown + 'i response) \<times> ('s, 'i) world" where
  "getReference db ident w = getOne db Metadata ''BibliographicReference'' ident w"

definition getLanguages_query :: "filter_options \<Rightarrow> string" where
  "getLanguages_query options =
     (let query = ''SELECT * FROM metadata WHERE metadata.type = 'Language'' @ [CHR 0x27]
      in if truthy (project options)
         then query @ project_clause ''metadata'' (project options) else query)"

definition getLanguages ::
  "('s, 'i) database \<Rightarrow> filter_options \<Rightarrow> ('s, 'i) world
     \<Rightarrow> (thrown + 'i response) \<times> ('s, 'i) world" where
  "getLanguages db options w = list_query db Metadata (getLanguages_query options) w"

definition getLexemes_query :: "filter_options \<Rightarrow> string" where
  "getLexemes_query options =
     (let query = ''SELECT * FROM data WHERE data.type = 'Lexeme'' @ [CHR 0x27];
          query = (if truthy (language options)
                   then query @ '' AND data.language.id = '' @ [CHR 0x27]
                          @ template (language options) @ [CHR 0x27]
                   else query)
      in if truthy (project options)
         then query @ project_clause ''data'' (project options) else query)"

definition getLexemes ::
  "('s, 'i) database \<Rightarrow> filter_options \<Rightarrow> ('s, 'i) world
     \<Rightarrow> (thrown + 'i response) \<times> ('s, 'i) world" where
  "getLexemes db options w = list_query db Data (getLexemes_query options) w"

definition user_clause :: "js_value \<Rightarrow> string" where
  "user_clause u =
     '' AND (\<newline>''
     @ ''          metadata.permissions.public = true\<newline>''
     @ ''          OR\<newline>''
     @ ''          ARRAY_CONTAINS(metadata.permissions.owners, '' @ [CHR 0x27] @ template u
     @ [CHR 0x27] @ '')\<newline>''
     @ ''          OR\<newline>''
     @ ''          ARRAY_CONTAINS(metadata.permissions.editors, '' @ [CHR 0x27] @ template u
     @ [CHR 0x27] @ '')\<newline>''
     @ ''          OR\<newline>''
     @ ''          ARRAY_CONTAINS(metadata.permissions.viewers, '' @ [CHR 0x27] @ template u
     @ [CHR 0x27] @ '')\<newline>''
     @ ''        )''"

definition getProjects_query :: "project_options \<Rightarrow> string" where
  "getProjects_query options =
     (let query = ''SELECT * FROM metadata WHERE metadata.type = 'Project'' @ [CHR 0x27]
      in case user options of
           None \<Rightarrow> query
         | Some u \<Rightarrow>
             if truthy u then query @ user_clause u
             else query @ '' AND metadata.permissions.public = true'')"

definition getProjects ::
  "('s, 'i) database \<Rightarrow> project_options \<Rightarrow> ('s, 'i) world
     \<Rightarrow> (thrown + 'i response) \<times> ('s, 'i) world" where
  "getProjects db options w = list_query db Metadata (getProjects_query options) w"

definition getReferences_query :: string where
  "getReferences_query =
     ''SELECT * FROM metadata WHERE metadata.type = 'BibliographicReference'' @ [CHR 0x27]"

definition getReferences ::
  "('s, 'i) database \<Rightarrow> ('s, 'i) world \<Rightarrow> (thrown + 'i response) \<times> ('s, 'i) world" where
  "getReferences db w = list_query db Metadata getReferences_query w"

section \<open>Reading the record of calls\<close>

text \<open>How a batch call settled; \<open>None\<close> for the other calls.\<close>

fun batch_outcome :: "'i event \<Rightarrow> (js_error + 'i batch_response) option" where
  "batch_outcome (BatchCall c b pk r) = Some r"
| "batch_outcome ev = None"

text \<open>The calls made between the world \<open>w\<close> before an operation and the world \<open>w'\<close> after it.\<close>

definition new_events :: "('s, 'i) world \<Rightarrow> ('s, 'i) world \<Rightarrow> 'i event list" where
  "new_events w w' = drop (length (events w)) (events w')"

text \<open>The error of a rejected call, as a list: empty for a call that resolved.\<close>

definition rejected_with :: "js_error + 'a \<Rightarrow> js_error list" where
  "rejected_with out = (case out of Inl err \<Rightarrow> [err] | Inr r \<Rightarrow> [])"

fun rejection_of :: "'i event \<Rightarrow> js_error list" where
  "rejection_of (CreateCall c d out) = rejected_with out"
| "rejection_of (BatchCall c b pk out) = rejected_with out"
| "rejection_of (BulkCall c ops continueOnError out) = rejected_with out"
| "rejection_of (ReadCall c ident pk out) = rejected_with out"
| "rejection_of (FetchAllCall c q out) = rejected_with out"
| "rejection_of (IterateCall c q out) = rejected_with out"
| "rejection_of (DatabaseDeleteCall out) = rejected_with out"
| "rejection_of (ReadAllCall c out) = rejected_with out"
| "rejection_of (CreateDatabaseCall name out) = rejected_with out"
| "rejection_of (CreateContainerCall name path out) = rejected_with out"

definition rejections :: "'i event list \<Rightarrow> js_error list" where
  "rejections evs = concat (map rejection_of evs)"

text \<open>
  The recorded call put to the provider in the state \<open>s\<close>: the provider's next state when
  it settles the call the way the record says, \<open>None\<close> when it settles it otherwise.
\<close>

fun answered :: "('s, 'i) database \<Rightarrow> 's \<Rightarrow> 'i event \<Rightarrow> 's option" where
  "answered db s (CreateCall c d out) =
     (case items_create db c d s of ((out', d'), s') \<Rightarrow> if out' = out then Some s' else None)"
| "answered db s (BatchCall c b pk out) =
     (case items_batch db c b pk s of (out', s') \<Rightarrow> if out' = out then Some s' else None)"
| "answered db s (BulkCall c ops continueOnError out) =
     (case items_bulk db c ops continueOnError s of
        (out', s') \<Rightarrow> if out' = out then Some s' else None)"
| "answered db s (ReadCall c ident pk out) =
     (case item_read db c ident pk s of (out', s') \<Rightarrow> if out' = out then Some s' else None)"
| "answered db s (FetchAllCall c q out) =
     (case query_fetchAll db c q s of (out', s') \<Rightarrow> if out' = out then Some s' else None)"
| "answered db s (IterateCall c q out) =
     (case query_iterate db c q s of (out', s') \<Rightarrow> if out' = out then Some s' else None)"
| "answered db s (DatabaseDeleteCall out) =
     (case database_delete db s of (out', s') \<Rightarrow> if out' = out then Some s' else None)"
| "answered db s (ReadAllCall c out) =
     (case items_readAll db c s of (out', s') \<Rightarrow> if out' = out then Some s' else None)"
| "answered db s (CreateDatabaseCall name out) =
     (case databases_createIfNotExists db name s of
        (out', s') \<Rightarrow> if out' = out then Some s' else None)"
| "answered db s (CreateContainerCall name path out) =
     (case containers_createIfNotExists db name path s of
        (out', s') \<Rightarrow> if out' = out then Some s' else None)"

text \<open>
  The recorded calls put to the provider one after the other from the state \<open>s\<close>: the
  final state when the provider settles each call the way the record says.
\<close>

fun replay :: "('s, 'i) database \<Rightarrow> 's \<Rightarrow> 'i event list \<Rightarrow> 's option" where
  "replay db s [] = Some s"
| "replay db s (ev # evs) =
     (case answered db s ev of None \<Rightarrow> None | Some s' \<Rightarrow> replay db s' evs)"

text \<open>
  An operation that catches nothing, seen from outside. \<open>out\<close> is its result and the
  world after it. The calls recorded since \<open>w\<close> are what the provider did from the store of
  \<open>w\<close>, ending in the store returned. When none of them was rejected, the operation returns
  a value (its result is an \<open>Inr\<close>), or throws a TypeError exactly when \<open>type_error\<close> says
  that the provider's answer cannot be read. When one was rejected, it is the last call and the only
  rejection, and the operation throws that very error.
\<close>

definition propagates ::
  "('s, 'i) database \<Rightarrow> ('s, 'i) world \<Rightarrow> bool \<Rightarrow> (thrown + 'a) \<times> ('s, 'i) world \<Rightarrow> bool" where
  "propagates db w type_error out =
     (case out of
        (res, w') \<Rightarrow>
          events w' = events w @ new_events w w'
        \<and> replay db (store w) (new_events w w') = Some (store w')
        \<and> (case rejections (new_events w w') of
             [] \<Rightarrow> if type_error then res = Inl TypeError else \<not> isl res
           | err # others \<Rightarrow>
               others = [] \<and> rejection_of (last (new_events w w')) = [err]
             \<and> res = Inl (ProviderError err)))"

text \<open>
  What \<^verbatim>\<open>clearContainer\<close> cannot read: in the data container, an item without
  \<^verbatim>\<open>language\<close>. \<open>missing_language\<close> says that the record holds a \<^verbatim>\<open>readAll\<close> of the data
  container that resolved with such an item.
\<close>

definition lacking :: "container \<Rightarrow> 'z document_scheme list \<Rightarrow> bool" where
  "lacking c items = (c = Data \<and> (\<exists>item \<in> set items. item_language item = None))"

definition missing_language :: "'z document_scheme event list \<Rightarrow> bool" where
  "missing_language evs =
     (\<exists>resources. ReadAllCall Data (Inr resources) \<in> set evs \<and> lacking Data resources)"

text \<open>
  What \<^verbatim>\<open>clear()\<close> may throw, given the calls recorded: a TypeError when an item without
  \<^verbatim>\<open>language\<close> was read, or the error of one of the rejected calls.
\<close>

definition thrown_ok :: "thrown \<Rightarrow> 'z document_scheme event list \<Rightarrow> bool" where
  "thrown_ok e evs =
     ((e = TypeError \<and> missing_language evs)
      \<or> (\<exists>err \<in> set (rejections evs). e = ProviderError err))"

text \<open>
  The invariant of the two runs of \<^verbatim>\<open>clear()\<close>, used in the proofs: a run that still has
  batches to do has read them, a settled run threw only what \<open>thrown_ok\<close> allows, and as
  long as no run is rejected no call was rejected.
\<close>

definition run_ok ::
  "container \<Rightarrow> 'z document_scheme clearing \<Rightarrow> 'z document_scheme event list \<Rightarrow> bool" where
  "run_ok c t evs =
     (case t of
        Reading \<Rightarrow> True
      | Calling ops batches \<Rightarrow> (lacking c (concat batches) \<longrightarrow> missing_language evs)
      | Settled r \<Rightarrow> (\<forall>e. r = Inl e \<longrightarrow> thrown_ok e evs))"

definition clear_inv ::
  "'z document_scheme clearing \<Rightarrow> 'z document_scheme clearing \<Rightarrow> thrown option
     \<Rightarrow> 'z document_scheme event list \<Rightarrow> bool" where
  "clear_inv t1 t2 first evs =
     (run_ok Data t1 evs \<and> run_ok Metadata t2 evs
      \<and> (\<forall>e. first = Some e \<longrightarrow> thrown_ok e evs)
      \<and> (first = None \<longrightarrow>
            (\<forall>e. t1 \<noteq> Settled (Inl e)) \<and> (\<forall>e. t2 \<noteq> Settled (Inl e)) \<and> rejections evs = []))"

section \<open>An in-memory provider for concrete runs\<close>

text \<open>
  A small provider whose state is the list of stored items. A create is refused with
  code 409 when the id is taken; a batch is all or nothing, with aggregate code 207 and no
  change when one of its ids is taken; reads answer 404 for an id that is not stored.
  A bulk call answers every operation like a read and leaves the store as it is.
\<close>

definition mem_find :: "'z item_scheme list \<Rightarrow> string option \<Rightarrow> 'z item_scheme option" where
  "mem_find s i = find (\<lambda>d. item_id d = i) s"

definition mem_create ::
  "container \<Rightarrow> 'z item_scheme \<Rightarrow> 'z item_scheme list
     \<Rightarrow> ((js_error + 'z item_scheme item_response) \<times> 'z item_scheme) \<times> 'z item_scheme list" where
  "mem_create c d s =
     (case mem_find s (item_id d) of
        Some x \<Rightarrow> ((Inl \<lparr>err_code = Some 409, err_message = ''Conflict''\<rparr>, d), s)
      | None \<Rightarrow> ((Inr \<lparr>resource = Some d, item_statusCode = 201\<rparr>, d), s @ [d]))"

definition mem_batch ::
  "container \<Rightarrow> 'z item_scheme operation list \<Rightarrow> string option \<Rightarrow> 'z item_scheme list
     \<Rightarrow> (js_error + 'z item_scheme batch_response) \<times> 'z item_scheme list" where
  "mem_batch c ops pk s =
     (if \<exists>operation \<in> set ops.
           mem_find s (case op_resourceBody operation of None \<Rightarrow> None | Some d \<Rightarrow> item_id d)
             \<noteq> None
      then (Inr \<lparr>code = 207,
                 result = map (\<lambda>operation. \<lparr>statusCode = 424, resourceBody = None\<rparr>) ops\<rparr>, s)
      else (Inr \<lparr>code = 200,
                 result = map (\<lambda>operation. \<lparr>statusCode = 201,
                                         resourceBody = op_resourceBody operation\<rparr>) ops\<rparr>,
            s @ concat (map (\<lambda>operation. case op_resourceBody operation of
                                            None \<Rightarrow> [] | Some d \<Rightarrow> [d]) ops)))"

definition mem_lookup ::
  "'z item_scheme list \<Rightarrow> 'z item_scheme operation \<Rightarrow> 'z item_scheme operation_response" where
  "mem_lookup s operation =
     (case mem_find s (op_id operation) of
        None \<Rightarrow> \<lparr>statusCode = 404, resourceBody = None\<rparr>
      | Some d \<Rightarrow> \<lparr>statusCode = 200, resourceBody = Some d\<rparr>)"

definition mem_read ::
  "container \<Rightarrow> string \<Rightarrow> string \<Rightarrow> 'z item_scheme list
     \<Rightarrow> (js_error + 'z item_scheme item_response) \<times> 'z item_scheme list" where
  "mem_read c ident pk s =
     (case mem_find s (Some ident) of
        None \<Rightarrow> (Inr \<lparr>resource = None, item_statusCode = 404\<rparr>, s)
      | Some d \<Rightarrow> (Inr \<lparr>resource = Some d, item_statusCode = 200\<rparr>, s))"

definition mem_types :: "string \<Rightarrow> container option" where
  "mem_types t =
     (if t = ''Lexeme'' then Some Data
      else if t = ''Language'' \<or> t = ''Project'' \<or> t = ''BibliographicReference''
      then Some Metadata else None)"

definition mem_validate :: "'z item_scheme \<Rightarrow> js_error option" where
  "mem_validate d =
     (if item_id d = Some [] then Some \<lparr>err_code = None, err_message = ''Invalid ID''\<rparr>
      else None)"

definition mem_db :: "string \<Rightarrow> (item list, item) database" where
  "mem_db name =
     \<lparr>dbName = name, types = mem_types, validate = mem_validate, default_status = 200,
      items_create = mem_create, items_batch = mem_batch,
      items_bulk = (\<lambda>c ops continueOnError s. (Inr (map (mem_lookup s) ops), s)),
      item_read = mem_read,
      query_fetchAll = (\<lambda>c q s. (Inr [\<lparr>dollar1 = Some (int (length s))\<rparr>], s)),
      query_iterate = (\<lambda>c q s. (Inr [s], s)),
      database_delete = (\<lambda>s. (Inr (), [])),
      items_readAll = (\<lambda>c s. (Inr s, s)),
      databases_createIfNotExists = (\<lambda>name s. (Inr (), s)),
      containers_createIfNotExists = (\<lambda>name path s. (Inr (), s))\<rparr>"

definition mem_world :: "item list \<Rightarrow> (item list, item) world" where
  "mem_world s = \<lparr>store = s, events = []\<rparr>"

text \<open>A provider that is out of service: every call is rejected with code 503.\<close>

definition unavailable :: js_error where
  "unavailable = \<lparr>err_code = Some 503, err_message = ''Service Unavailable''\<rparr>"

definition failing_db :: "string \<Rightarrow> (item list, item) database" where
  "failing_db name =
     \<lparr>dbName = name, types = mem_types, validate = mem_validate, default_status = 200,
      items_create = (\<lambda>c d s. ((Inl unavailable, d), s)),
      items_batch = (\<lambda>c ops pk s. (Inl unavailable, s)),
      items_bulk = (\<lambda>c ops continueOnError s. (Inl unavailable, s)),
      item_read = (\<lambda>c ident pk s. (Inl unavailable, s)),
      query_fetchAll = (\<lambda>c q s. (Inl unavailable, s)),
      query_iterate = (\<lambda>c q s. (Inl unavailable, s)),
      database_delete = (\<lambda>s. (Inl unavailable, s)),
      items_readAll = (\<lambda>c s. (Inl unavailable, s)),
      databases_createIfNotExists = (\<lambda>name s. (Inl unavailable, s)),
      containers_createIfNotExists = (\<lambda>name path s. (Inl unavailable, s))\<rparr>"

text \<open>The same two providers holding documents, for the development methods.\<close>

definition doc_db :: "string \<Rightarrow> (document list, document) database" where
  "doc_db name =
     \<lparr>dbName = name, types = mem_types, validate = mem_validate, default_status = 200,
      items_create = mem_create, items_batch = mem_batch,
      items_bulk = (\<lambda>c ops continueOnError s. (Inr (map (mem_lookup s) ops), s)),
      item_read = mem_read,
      query_fetchAll = (\<lambda>c q s. (Inr [\<lparr>dollar1 = Some (int (length s))\<rparr>], s)),
      query_iterate = (\<lambda>c q s. (Inr [s], s)),
      database_delete = (\<lambda>s. (Inr (), [])),
      items_readAll = (\<lambda>c s. (Inr s, s)),
      databases_createIfNotExists = (\<lambda>name s. (Inr (), s)),
      containers_createIfNotExists = (\<lambda>name path s. (Inr (), s))\<rparr>"

definition doc_world :: "document list \<Rightarrow> (document list, document) world" where
  "doc_world s = \<lparr>store = s, events = []\<rparr>"

definition failing_doc_db :: "string \<Rightarrow> (document list, document) database" where
  "failing_doc_db name =
     \<lparr>dbName = name, types = mem_types, validate = mem_validate, default_status = 200,
      items_create = (\<lambda>c d s. ((Inl unavailable, d), s)),
      items_batch = (\<lambda>c ops pk s. (Inl unavailable, s)),
      items_bulk = (\<lambda>c ops continueOnError s. (Inl unavailable, s)),
      item_read = (\<lambda>c ident pk s. (Inl unavailable, s)),
      query_fetchAll = (\<lambda>c q s. (Inl unavailable, s)),
      query_iterate = (\<lambda>c q s. (Inl unavailable, s)),
      database_delete = (\<lambda>s. (Inl unavailable, s)),
      items_readAll = (\<lambda>c s. (Inl unavailable, s)),
      databases_createIfNotExists = (\<lambda>name s. (Inl unavailable, s)),
      containers_createIfNotExists = (\<lambda>name path s. (Inl unavailable, s))\<rparr>"

section \<open>Properties of chunking\<close>

lemma chunk_groups_Nil: "chunk_groups [] k = []"
  by (simp add: chunk_groups.simps)

lemma chunk_groups_step:
  "0 < k \<Longrightarrow> xs \<noteq> [] \<Longrightarrow> chunk_groups xs k = take k xs # chunk_groups (drop k xs) k"
  by (subst chunk_groups.simps) simp

lemma concat_chunk_groups: "0 < k \<Longrightarrow> concat (chunk_groups xs k) = xs"
proof (induction xs k rule: chunk_groups.induct)
  case (1 items n)
  show ?case
  proof (cases "items = []")
    case True
    then show ?thesis by (simp add: chunk_groups_Nil)
  next
    case False
    with 1 show ?thesis by (simp add: chunk_groups_step)
  qed
qed

lemma chunk_groups_bounds:
  "0 < k \<Longrightarrow> c \<in> set (chunk_groups xs k) \<Longrightarrow> 1 \<le> length c \<and> length c \<le> k"
proof (induction xs k rule: chunk_groups.induct)
  case (1 items n)
  show ?case
  proof (cases "items = []")
    case True
    with 1(3) show ?thesis by (simp add: chunk_groups_Nil)
  next
    case False
    with 1 show ?thesis
      by (auto simp: chunk_groups_step Suc_le_eq min_def)
  qed
qed

lemma chunk_groups_full:
  "0 < k \<Longrightarrow> Suc i < length (chunk_groups xs k) \<Longrightarrow> length (chunk_groups xs k ! i) = k"
proof (induction xs k arbitrary: i rule: chunk_groups.induct)
  case (1 items n)
  show ?case
  proof (cases "items = []")
    case True
    with 1(3) show ?thesis by (simp add: chunk_groups_Nil)
  next
    case False
    note ne = this
    have step: "chunk_groups items n = take n items # chunk_groups (drop n items) n"
      using 1(2) ne by (rule chunk_groups_step)
    show ?thesis
    proof (cases i)
      case 0
      with 1(3) step have "chunk_groups (drop n items) n \<noteq> []" by auto
      then have "drop n items \<noteq> []" by (auto simp: chunk_groups_Nil)
      then have "n < length items" by simp
      with 0 step show ?thesis by simp
    next
      case (Suc j)
      with 1(3) step have "Suc j < length (chunk_groups (drop n items) n)" by simp
      with 1(1)[of j] ne 1(2) have "length (chunk_groups (drop n items) n ! j) = n"
        by simp
      with Suc step show ?thesis by simp
    qed
  qed
qed

text \<open>
  Claim C9. For every sequence \<open>S\<close> and every positive size \<open>k\<close>, chunking succeeds and
  the chunks concatenate back to \<open>S\<close> (so the element order is the original one); every
  chunk but the last has exactly \<open>k\<close> elements; every chunk, the last one included, has
  at least one and at most \<open>k\<close> elements; and the empty sequence has no chunk at all.
\<close>

theorem chunk_partitions:
  "0 < k \<Longrightarrow>
     (\<exists>cs. chunk S k = Inr cs
        \<and> concat cs = S
        \<and> (\<forall>i. Suc i < length cs \<longrightarrow> length (cs ! i) = k)
        \<and> (\<forall>c \<in> set cs. 1 \<le> length c \<and> length c \<le> k))
     \<and> chunk ([] :: 'a list) k = Inr []"
  using chunk_groups_bounds [of k _ S]
  by (auto simp: chunk_def concat_chunk_groups chunk_groups_full chunk_groups_Nil)

theorem chunk_partitions_witness:
  "(0::nat) < 2
   \<and> chunk [1, 2, 3, 4, 5 :: nat] 2 = Inr [[1, 2], [3, 4], [5]]
   \<and> concat [[1, 2], [3, 4], [5 :: nat]] = [1, 2, 3, 4, 5]
   \<and> chunk ([] :: nat list) 2 = Inr []"
  using chunk_partitions [of 2 "[1, 2, 3, 4, 5 :: nat]"]
  by (simp add: chunk_def chunk_groups.simps)

section \<open>The batches of addMany\<close>



lemma chunk_bulkLimit:
  "chunk xs bulkLimit = Inr (chunk_groups xs 100)"
  by (simp add: chunk_def bulkLimit_def)



section \<open>addMany against the provider\<close>

lemma world_eta: "\<lparr>store = store w, events = events w\<rparr> = (w :: ('s, 'i) world)"
  by simp

lemma addMany_batches_created:
  assumes "length responses = length batches"
    and "\<forall>r \<in> set responses. code r \<noteq> 207"
    and "replay db (store w) (map2 (\<lambda>b r. BatchCall c b (Some pk) (Inr r)) batches responses)
           = Some s'"
  shows "addMany_batches db c pk batches results w
     = (Inr (DatabaseResponse (default_status db)
               (Some (Bodies (map resourceBody (results @ concat (map result responses)))))
               None (Some 201)),
        \<lparr>store = s',
         events = events w @ map2 (\<lambda>b r. BatchCall c b (Some pk) (Inr r)) batches responses\<rparr>)"
  using assms
proof (induction batches arbitrary: responses results w)
  case Nil
  then show ?case by simp
next
  case (Cons b bs)
  from Cons.prems(1) obtain r rs where rs: "responses = r # rs" "length rs = length bs"
    by (cases responses) auto
  obtain out s1 where ib: "items_batch db c b (Some pk) (store w) = (out, s1)"
    by (cases "items_batch db c b (Some pk) (store w)")
  from Cons.prems(3) rs ib have out: "out = Inr r"
    and rp: "replay db s1 (map2 (\<lambda>b r. BatchCall c b (Some pk) (Inr r)) bs rs) = Some s'"
    by (auto split: if_splits)
  let ?w1 = "\<lparr>store = s1, events = events w @ [BatchCall c b (Some pk) (Inr r)]\<rparr>"
  from ib out have d: "dispatch (items_batch db c b (Some pk)) (BatchCall c b (Some pk)) w
      = (Inr r, ?w1)" by (simp add: dispatch_def)
  from Cons.prems(2) rs have c207: "code r \<noteq> 207" and rest: "\<forall>r \<in> set rs. code r \<noteq> 207"
    by simp_all
  from rp have rp': "replay db (store ?w1)
      (map2 (\<lambda>b r. BatchCall c b (Some pk) (Inr r)) bs rs) = Some s'" by simp
  from Cons.IH[OF rs(2) rest rp', of "results @ result r"] d c207 rs
  show ?case by simp
qed

lemma addMany_batches_rejected:
  assumes "n < length batches" and "length responses = n"
    and "\<forall>r \<in> set responses. code r \<noteq> 207"
    and "replay db (store w)
           (map2 (\<lambda>b r. BatchCall c b (Some pk) (Inr r)) (take n batches) responses) = Some s1"
    and "items_batch db c (batches ! n) (Some pk) s1 = (Inl err, s2)"
  shows "addMany_batches db c pk batches results w
     = (Inl (ProviderError err),
        \<lparr>store = s2,
         events = events w
           @ map2 (\<lambda>b r. BatchCall c b (Some pk) (Inr r)) (take n batches) responses
           @ [BatchCall c (batches ! n) (Some pk) (Inl err)]\<rparr>)"
  using assms
proof (induction batches arbitrary: n responses results w)
  case Nil
  then show ?case by simp
next
  case (Cons b bs)
  show ?case
  proof (cases n)
    case 0
    with Cons.prems show ?thesis by (simp add: dispatch_def)
  next
    case (Suc m)
    with Cons.prems(2) obtain r rs where rs: "responses = r # rs" "length rs = m"
      by (cases responses) auto
    obtain out sa where ib: "items_batch db c b (Some pk) (store w) = (out, sa)"
      by (cases "items_batch db c b (Some pk) (store w)")
    from Cons.prems(4) rs ib Suc have out: "out = Inr r"
      and rp: "replay db sa (map2 (\<lambda>b r. BatchCall c b (Some pk) (Inr r)) (take m bs) rs)
                 = Some s1"
      by (auto split: if_splits)
    let ?w1 = "\<lparr>store = sa, events = events w @ [BatchCall c b (Some pk) (Inr r)]\<rparr>"
    from ib out have d: "dispatch (items_batch db c b (Some pk)) (BatchCall c b (Some pk)) w
        = (Inr r, ?w1)" by (simp add: dispatch_def)
    from Cons.prems(3) rs have c207: "code r \<noteq> 207" and rest: "\<forall>r \<in> set rs. code r \<noteq> 207"
      by simp_all
    from Cons.prems(1) Suc have m: "m < length bs" by simp
    from rp have rp': "replay db (store ?w1)
        (map2 (\<lambda>b r. BatchCall c b (Some pk) (Inr r)) (take m bs) rs) = Some s1" by simp
    from Cons.prems(5) Suc have last: "items_batch db c (bs ! m) (Some pk) s1 = (Inl err, s2)"
      by simp
    from Cons.IH[OF m rs(2) rest rp' last, of "results @ result r"] d c207 rs Suc
    show ?thesis by simp
  qed
qed

text \<open>
  Claim C2, as amended. The create operations of the items are cut into batches of at
  most 100. When the provider, called with these batches one after the other from the
  store of \<open>w\<close>, answers every one of them with a response whose aggregate code is not
  207, \<^verbatim>\<open>addMany\<close> dispatches every batch, in order, and returns status 201 with the
  resource bodies of all per-operation results, in the order of the batches and, within a
  batch, of its results. When the provider answers the first \<open>n\<close> batches that way and
  rejects the next one, \<^verbatim>\<open>addMany\<close> returns no response: it throws the provider's error,
  and that batch is the last one dispatched.
\<close>

theorem addMany_all_created:
  "\<exists>batches.
      chunk (create_operations items) 100 = Inr batches
    \<and> (\<forall>responses s'.
          length responses = length batches
        \<and> (\<forall>r \<in> set responses. code r \<noteq> 207)
        \<and> replay db (store w)
              (map2 (\<lambda>b r. BatchCall c b (Some pk) (Inr r)) batches responses) = Some s'
        \<longrightarrow> addMany db c pk items w
              = (Inr \<lparr>data = Some (Bodies (map resourceBody (concat (map result responses)))),
                      message = None, status = Some 201\<rparr>,
                 \<lparr>store = s',
                  events = events w
                    @ map2 (\<lambda>b r. BatchCall c b (Some pk) (Inr r)) batches responses\<rparr>))
    \<and> (\<forall>n responses s1 err s2.
          n < length batches \<and> length responses = n
        \<and> (\<forall>r \<in> set responses. code r \<noteq> 207)
        \<and> replay db (store w)
              (map2 (\<lambda>b r. BatchCall c b (Some pk) (Inr r)) (take n batches) responses)
            = Some s1
        \<and> items_batch db c (batches ! n) (Some pk) s1 = (Inl err, s2)
        \<longrightarrow> addMany db c pk items w
              = (Inl (ProviderError err),
                 \<lparr>store = s2,
                  events = events w
                    @ map2 (\<lambda>b r. BatchCall c b (Some pk) (Inr r)) (take n batches) responses
                    @ [BatchCall c (batches ! n) (Some pk) (Inl err)]\<rparr>))"
proof (intro exI[of _ "chunk_groups (create_operations items) 100"] conjI allI impI)
  let ?batches = "chunk_groups (create_operations items) 100"
  show "chunk (create_operations items) 100 = Inr ?batches" by (simp add: chunk_def)
  have am: "addMany db c pk items w = addMany_batches db c pk ?batches [] w"
    by (simp add: addMany_def chunk_bulkLimit)
  {
    fix responses s'
    assume h: "length responses = length ?batches
        \<and> (\<forall>r \<in> set responses. code r \<noteq> 207)
        \<and> replay db (store w)
              (map2 (\<lambda>b r. BatchCall c b (Some pk) (Inr r)) ?batches responses) = Some s'"
    then have "addMany_batches db c pk ?batches [] w
      = (Inr (DatabaseResponse (default_status db)
               (Some (Bodies (map resourceBody ([] @ concat (map result responses)))))
               None (Some 201)),
        \<lparr>store = s',
         events = events w @ map2 (\<lambda>b r. BatchCall c b (Some pk) (Inr r)) ?batches responses\<rparr>)"
      by (intro addMany_batches_created) simp_all
    then show "addMany db c pk items w
              = (Inr \<lparr>data = Some (Bodies (map resourceBody (concat (map result responses)))),
                      message = None, status = Some 201\<rparr>,
                 \<lparr>store = s',
                  events = events w
                    @ map2 (\<lambda>b r. BatchCall c b (Some pk) (Inr r)) ?batches responses\<rparr>)"
      by (simp add: am DatabaseResponse_def)
  }
  {
    fix n responses s1 err s2
    assume h: "n < length ?batches \<and> length responses = n
        \<and> (\<forall>r \<in> set responses. code r \<noteq> 207)
        \<and> replay db (store w)
              (map2 (\<lambda>b r. BatchCall c b (Some pk) (Inr r)) (take n ?batches) responses)
            = Some s1
        \<and> items_batch db c (?batches ! n) (Some pk) s1 = (Inl err, s2)"
    then have "addMany_batches db c pk ?batches [] w
     = (Inl (ProviderError err),
        \<lparr>store = s2,
         events = events w
           @ map2 (\<lambda>b r. BatchCall c b (Some pk) (Inr r)) (take n ?batches) responses
           @ [BatchCall c (?batches ! n) (Some pk) (Inl err)]\<rparr>)"
      using addMany_batches_rejected[of n ?batches responses db w c pk s1 err s2 "[]"]
      by simp
    then show "addMany db c pk items w
              = (Inl (ProviderError err),
                 \<lparr>store = s2,
                  events = events w
                    @ map2 (\<lambda>b r. BatchCall c b (Some pk) (Inr r)) (take n ?batches) responses
                    @ [BatchCall c (?batches ! n) (Some pk) (Inl err)]\<rparr>)"
      by (simp add: am)
  }
qed

theorem addMany_all_created_witness:
  "replay (mem_db ''test'') (store (mem_world []))
      [BatchCall Data
         (replicate 100 \<lparr>operationType = Create, op_resourceBody = Some \<lparr>item_id = Some ''a''\<rparr>,
                          op_id = None, op_partitionKey = None\<rparr>) (Some ''p'')
         (Inr \<lparr>code = 200, result = replicate 100
                 \<lparr>statusCode = 201, resourceBody = Some \<lparr>item_id = Some ''a''\<rparr>\<rparr>\<rparr>),
       BatchCall Data
         (replicate 50 \<lparr>operationType = Create, op_resourceBody = Some \<lparr>item_id = Some ''b''\<rparr>,
                         op_id = None, op_partitionKey = None\<rparr>) (Some ''p'')
         (Inr \<lparr>code = 200, result = replicate 50
                 \<lparr>statusCode = 201, resourceBody = Some \<lparr>item_id = Some ''b''\<rparr>\<rparr>\<rparr>)]
     = Some (replicate 100 \<lparr>item_id = Some ''a''\<rparr> @ replicate 50 \<lparr>item_id = Some ''b''\<rparr>)
   \<and> fst (addMany (mem_db ''test'') Data ''p''
            (replicate 100 \<lparr>item_id = Some ''a''\<rparr> @ replicate 50 \<lparr>item_id = Some ''b''\<rparr>)
            (mem_world []))
     = Inr \<lparr>data = Some (Bodies (replicate 100 (Some \<lparr>item_id = Some ''a''\<rparr>)
                                   @ replicate 50 (Some \<lparr>item_id = Some ''b''\<rparr>))),
            message = None, status = Some 201\<rparr>
   \<and> items_batch (failing_db ''test'') Data
        [\<lparr>operationType = Create, op_resourceBody = Some \<lparr>item_id = Some ''a''\<rparr>,
          op_id = None, op_partitionKey = None\<rparr>] (Some ''p'') []
     = (Inl unavailable, [])
   \<and> addMany (failing_db ''test'') Data ''p'' [\<lparr>item_id = Some ''a''\<rparr>] (mem_world [])
     = (Inl (ProviderError unavailable),
        \<lparr>store = [],
         events = [BatchCall Data
                     [\<lparr>operationType = Create, op_resourceBody = Some \<lparr>item_id = Some ''a''\<rparr>,
                       op_id = None, op_partitionKey = None\<rparr>] (Some ''p'')
                     (Inl unavailable)]\<rparr>)"
proof -
  let ?a = "\<lparr>item_id = Some ''a''\<rparr>"
  let ?b = "\<lparr>item_id = Some ''b''\<rparr>"
  let ?items = "replicate 100 ?a @ replicate 50 ?b"
  let ?opa = "\<lparr>operationType = Create, op_resourceBody = Some ?a,
              op_id = None, op_partitionKey = None\<rparr>"
  let ?opb = "\<lparr>operationType = Create, op_resourceBody = Some ?b,
              op_id = None, op_partitionKey = None\<rparr>"
  let ?r1 = "\<lparr>code = 200, result = replicate 100 \<lparr>statusCode = 201, resourceBody = Some ?a\<rparr>\<rparr>"
  let ?r2 = "\<lparr>code = 200, result = replicate 50 \<lparr>statusCode = 201, resourceBody = Some ?b\<rparr>\<rparr>"
  let ?w = "mem_world []"
  have ch: "chunk (create_operations ?items) 100 = Inr [replicate 100 ?opa, replicate 50 ?opb]"
    by code_simp
  have rp: "replay (mem_db ''test'') (store ?w)
      [BatchCall Data (replicate 100 ?opa) (Some ''p'') (Inr ?r1),
       BatchCall Data (replicate 50 ?opb) (Some ''p'') (Inr ?r2)] = Some ?items"
    by code_simp
  from addMany_all_created[of ?items "mem_db ''test''" ?w Data "''p''"] ch
  have created: "\<forall>responses s'.
          length responses = length [replicate 100 ?opa, replicate 50 ?opb]
        \<and> (\<forall>r \<in> set responses. code r \<noteq> 207)
        \<and> replay (mem_db ''test'') (store ?w)
              (map2 (\<lambda>b r. BatchCall Data b (Some ''p'') (Inr r))
                 [replicate 100 ?opa, replicate 50 ?opb] responses) = Some s'
        \<longrightarrow> addMany (mem_db ''test'') Data ''p'' ?items ?w
              = (Inr \<lparr>data = Some (Bodies (map resourceBody (concat (map result responses)))),
                      message = None, status = Some 201\<rparr>,
                 \<lparr>store = s',
                  events = events ?w
                    @ map2 (\<lambda>b r. BatchCall Data b (Some ''p'') (Inr r))
                        [replicate 100 ?opa, replicate 50 ?opb] responses\<rparr>)"
    by auto
  from created[rule_format, of "[?r1, ?r2]" ?items] rp
  have run: "fst (addMany (mem_db ''test'') Data ''p'' ?items ?w)
     = Inr \<lparr>data = Some (Bodies (replicate 100 (Some ?a) @ replicate 50 (Some ?b))),
            message = None, status = Some 201\<rparr>"
    by simp
  have ch1: "chunk (create_operations [?a]) 100 = Inr [[?opa]]" by code_simp
  have ib: "items_batch (failing_db ''test'') Data [?opa] (Some ''p'') [] = (Inl unavailable, [])"
    by (simp add: failing_db_def)
  from addMany_all_created[of "[?a]" "failing_db ''test''" ?w Data "''p''"] ch1
  have rejected: "\<forall>n responses s1 err s2.
          n < length [[?opa]] \<and> length responses = n
        \<and> (\<forall>r \<in> set responses. code r \<noteq> 207)
        \<and> replay (failing_db ''test'') (store ?w)
              (map2 (\<lambda>b r. BatchCall Data b (Some ''p'') (Inr r)) (take n [[?opa]]) responses)
            = Some s1
        \<and> items_batch (failing_db ''test'') Data ([[?opa]] ! n) (Some ''p'') s1 = (Inl err, s2)
        \<longrightarrow> addMany (failing_db ''test'') Data ''p'' [?a] ?w
              = (Inl (ProviderError err),
                 \<lparr>store = s2,
                  events = events ?w
                    @ map2 (\<lambda>b r. BatchCall Data b (Some ''p'') (Inr r)) (take n [[?opa]]) responses
                    @ [BatchCall Data ([[?opa]] ! n) (Some ''p'') (Inl err)]\<rparr>)"
    by auto
  from rejected[rule_format, of 0 "[]" "[]" unavailable "[]"] ib
  have thrown: "addMany (failing_db ''test'') Data ''p'' [?a] ?w
     = (Inl (ProviderError unavailable),
        \<lparr>store = [], events = [BatchCall Data [?opa] (Some ''p'') (Inl unavailable)]\<rparr>)"
    by (simp add: mem_world_def)
  from rp run ib thrown show ?thesis by simp
qed

text \<open>
  Claim C2, the counterexample: the provider rejects the only batch. No dispatched batch
  reports the aggregate code 207, and \<^verbatim>\<open>addMany\<close> does not return a response with status
  201: it throws the provider's error.
\<close>

theorem addMany_rejected_batch:
  "new_events (mem_world [])
      (snd (addMany (failing_db ''test'') Data ''p'' [\<lparr>item_id = Some ''a''\<rparr>] (mem_world [])))
     = [BatchCall Data
          [\<lparr>operationType = Create, op_resourceBody = Some \<lparr>item_id = Some ''a''\<rparr>,
            op_id = None, op_partitionKey = None\<rparr>] (Some ''p'') (Inl unavailable)]
   \<and> fst (addMany (failing_db ''test'') Data ''p'' [\<lparr>item_id = Some ''a''\<rparr>] (mem_world []))
     = Inl (ProviderError unavailable)"
  by code_simp

section \<open>Reading many items\<close>

lemma decimal_bulkLimit: "decimal bulkLimit = ''100''"
  by code_simp

lemma dispatch_new_events:
  "new_events w (snd (dispatch f ev w)) = [ev (fst (f (store w)))]"
  by (simp add: dispatch_def new_events_def split: prod.splits)

text \<open>
  Claim C3. With more than 100 ids \<^verbatim>\<open>getMany\<close> returns status 400 with the message about
  the limit and leaves the world as it was: the store is not touched and no call is
  recorded. With 100 ids or fewer the one bulk read of all the ids is dispatched.
\<close>

theorem getMany_limit:
  "(100 < length ids \<longrightarrow>
      getMany db c pk ids w
        = (Inr \<lparr>data = None, message = Some ''You can only retrieve 100 items at a time.'',
                status = Some 400\<rparr>, w))
   \<and> (length ids \<le> 100 \<longrightarrow>
      new_events w (snd (getMany db c pk ids w))
        = [BulkCall c (read_operations pk ids) True
             (fst (items_bulk db c (read_operations pk ids) True (store w)))])"
proof (intro conjI impI)
  assume "100 < length ids"
  then show "getMany db c pk ids w
        = (Inr \<lparr>data = None, message = Some ''You can only retrieve 100 items at a time.'',
                status = Some 400\<rparr>, w)"
    by (simp add: getMany_def decimal_bulkLimit DatabaseResponse_def) (simp add: bulkLimit_def)
next
  assume "length ids \<le> 100"
  then have "\<not> bulkLimit < length ids" by (simp add: bulkLimit_def)
  then show "new_events w (snd (getMany db c pk ids w))
        = [BulkCall c (read_operations pk ids) True
             (fst (items_bulk db c (read_operations pk ids) True (store w)))]"
    by (simp add: getMany_def Let_def dispatch_def new_events_def split: prod.splits sum.splits)
qed

theorem getMany_limit_witness:
  "100 < length (replicate 101 ''x'')
   \<and> getMany (mem_db ''test'') Data ''p'' (replicate 101 ''x'') (mem_world [])
        = (Inr \<lparr>data = None, message = Some ''You can only retrieve 100 items at a time.'',
                status = Some 400\<rparr>, mem_world [])
   \<and> length [''x''] \<le> 100
   \<and> new_events (mem_world []) (snd (getMany (mem_db ''test'') Data ''p'' [''x''] (mem_world [])))
        = [BulkCall Data
             [\<lparr>operationType = Read, op_resourceBody = None, op_id = Some ''x'',
               op_partitionKey = Some ''p''\<rparr>] True
             (Inr [\<lparr>statusCode = 404, resourceBody = None\<rparr>])]"
  using getMany_limit [of "replicate 101 ''x''" "mem_db ''test''" Data "''p''" "mem_world []"]
    getMany_limit [of "[''x'']" "mem_db ''test''" Data "''p''" "mem_world []"]
  by (simp add: read_operations_def mem_db_def mem_world_def mem_lookup_def mem_find_def)

lemma getMany_entries_zip:
  "length results \<le> length operations \<Longrightarrow>
   getMany_entries results operations
     = Inr (map2 (\<lambda>r operation. \<lparr>entry_data = resourceBody r, entry_id = op_id operation,
                                   entry_status = statusCode r\<rparr>) results operations)"
  by (induction results operations rule: getMany_entries.induct) simp_all

lemma getMany_entries_Inl: "getMany_entries results operations = Inl t \<Longrightarrow> t = TypeError"
  by (induction results operations rule: getMany_entries.induct) (auto split: sum.splits)

text \<open>
  Claim C4. Within the limit, a response returned by \<^verbatim>\<open>getMany\<close> has status 207 and a
  list of entries as data. When the bulk call resolves with one result per operation,
  there is one entry per requested id, in the order of the ids, carrying that id and the
  status code and body (or missing body) of the result at the same position.
\<close>

theorem getMany_per_id:
  "(length ids \<le> 100 \<and> fst (getMany (db :: ('s, 'i) database) c pk ids w) = Inr r \<longrightarrow>
      status r = Some 207 \<and> (\<exists>entries. data r = Some (Entries entries)))
   \<and> (length ids \<le> 100
        \<and> items_bulk db c (read_operations pk ids) True (store w) = (Inr results, s')
        \<and> length results = length ids \<longrightarrow>
      (\<exists>entries.
          fst (getMany db c pk ids w)
            = Inr \<lparr>data = Some (Entries entries), message = None, status = Some 207\<rparr>
        \<and> length entries = length ids
        \<and> (\<forall>i < length ids.
              entry_id (entries ! i) = Some (ids ! i)
            \<and> entry_status (entries ! i) = statusCode (results ! i)
            \<and> entry_data (entries ! i) = resourceBody (results ! i))))"
proof -
  have first: "status r = Some 207 \<and> (\<exists>entries. data r = Some (Entries entries))"
    if a: "length ids \<le> 100 \<and> fst (getMany db c pk ids w) = Inr r"
  proof -
    from a have "\<not> bulkLimit < length ids" by (simp add: bulkLimit_def)
    with a show ?thesis
      by (auto simp: getMany_def Let_def DatabaseResponse_def split: prod.splits sum.splits)
  qed
  have second: "\<exists>entries.
          fst (getMany db c pk ids w)
            = Inr \<lparr>data = Some (Entries entries), message = None, status = Some 207\<rparr>
        \<and> length entries = length ids
        \<and> (\<forall>i < length ids.
              entry_id (entries ! i) = Some (ids ! i)
            \<and> entry_status (entries ! i) = statusCode (results ! i)
            \<and> entry_data (entries ! i) = resourceBody (results ! i))"
    if a: "length ids \<le> 100
        \<and> items_bulk db c (read_operations pk ids) True (store w) = (Inr results, s')
        \<and> length results = length ids"
  proof -
    let ?ops = "read_operations pk ids :: 'i operation list"
    let ?entries = "map2 (\<lambda>r operation. \<lparr>entry_data = resourceBody r, entry_id = op_id operation,
                                     entry_status = statusCode r\<rparr>) results ?ops"
    from a have lim: "\<not> bulkLimit < length ids" by (simp add: bulkLimit_def)
    from a have len: "length results = length ?ops" by (simp add: read_operations_def)
    then have ent: "getMany_entries results ?ops = Inr ?entries"
      by (simp add: getMany_entries_zip)
    have "fst (getMany db c pk ids w)
            = Inr \<lparr>data = Some (Entries ?entries), message = None, status = Some 207\<rparr>"
      using a lim ent by (simp add: getMany_def Let_def dispatch_def DatabaseResponse_def)
    moreover have "length ?entries = length ids" using a by (simp add: read_operations_def)
    moreover have "\<forall>i < length ids.
              entry_id (?entries ! i) = Some (ids ! i)
            \<and> entry_status (?entries ! i) = statusCode (results ! i)
            \<and> entry_data (?entries ! i) = resourceBody (results ! i)"
      using a by (simp add: read_operations_def)
    ultimately show ?thesis by blast
  qed
  from first second show ?thesis by blast
qed

theorem getMany_per_id_witness:
  "length [''a'', ''b'', ''c''] \<le> 100
   \<and> items_bulk (mem_db ''test'') Data (read_operations ''p'' [''a'', ''b'', ''c'']) True
        (store (mem_world [\<lparr>item_id = Some ''a''\<rparr>, \<lparr>item_id = Some ''c''\<rparr>]))
      = (Inr [\<lparr>statusCode = 200, resourceBody = Some \<lparr>item_id = Some ''a''\<rparr>\<rparr>,
              \<lparr>statusCode = 404, resourceBody = None\<rparr>,
              \<lparr>statusCode = 200, resourceBody = Some \<lparr>item_id = Some ''c''\<rparr>\<rparr>],
         [\<lparr>item_id = Some ''a''\<rparr>, \<lparr>item_id = Some ''c''\<rparr>])
   \<and> fst (getMany (mem_db ''test'') Data ''p'' [''a'', ''b'', ''c'']
            (mem_world [\<lparr>item_id = Some ''a''\<rparr>, \<lparr>item_id = Some ''c''\<rparr>]))
      = Inr \<lparr>data = Some (Entries
                [\<lparr>entry_data = Some \<lparr>item_id = Some ''a''\<rparr>, entry_id = Some ''a'',
                  entry_status = 200\<rparr>,
                 \<lparr>entry_data = None, entry_id = Some ''b'', entry_status = 404\<rparr>,
                 \<lparr>entry_data = Some \<lparr>item_id = Some ''c''\<rparr>, entry_id = Some ''c'',
                  entry_status = 200\<rparr>]),
             message = None, status = Some 207\<rparr>"
proof -
  let ?ids = "[''a'', ''b'', ''c'']"
  let ?s = "[\<lparr>item_id = Some ''a''\<rparr>, \<lparr>item_id = Some ''c''\<rparr>]"
  let ?results = "[\<lparr>statusCode = 200, resourceBody = Some \<lparr>item_id = Some ''a''\<rparr>\<rparr>,
              \<lparr>statusCode = 404, resourceBody = None\<rparr>,
              \<lparr>statusCode = 200, resourceBody = Some \<lparr>item_id = Some ''c''\<rparr>\<rparr>]"
  have bulk: "items_bulk (mem_db ''test'') Data (read_operations ''p'' ?ids) True
        (store (mem_world ?s)) = (Inr ?results, ?s)"
    by (simp add: mem_db_def mem_world_def read_operations_def mem_lookup_def mem_find_def)
  have hyp: "length ?ids \<le> 100
     \<and> items_bulk (mem_db ''test'') Data (read_operations ''p'' ?ids) True
        (store (mem_world ?s)) = (Inr ?results, ?s)
     \<and> length ?results = length ?ids"
    using bulk by simp
  from getMany_per_id[of ?ids "mem_db ''test''" Data "''p''" "mem_world ?s"
       _ ?results ?s] hyp
  obtain entries where
    r: "fst (getMany (mem_db ''test'') Data ''p'' ?ids (mem_world ?s))
            = Inr \<lparr>data = Some (Entries entries), message = None, status = Some 207\<rparr>"
    and len: "length entries = length ?ids"
    and each: "\<forall>i < length ?ids.
              entry_id (entries ! i) = Some (?ids ! i)
            \<and> entry_status (entries ! i) = statusCode (?results ! i)
            \<and> entry_data (entries ! i) = resourceBody (?results ! i)"
    by blast
  from len obtain x y z where xyz: "entries = [x, y, z]"
    by (auto simp: numeral_3_eq_3 length_Suc_conv)
  from each have "entry_id (entries ! 0) = Some ''a'' \<and> entry_status (entries ! 0) = 200
      \<and> entry_data (entries ! 0) = Some \<lparr>item_id = Some ''a''\<rparr>"
    "entry_id (entries ! 1) = Some ''b'' \<and> entry_status (entries ! 1) = 404
      \<and> entry_data (entries ! 1) = None"
    "entry_id (entries ! 2) = Some ''c'' \<and> entry_status (entries ! 2) = 200
      \<and> entry_data (entries ! 2) = Some \<lparr>item_id = Some ''c''\<rparr>"
    by (simp_all del: One_nat_def)
  with xyz have "entries = [\<lparr>entry_data = Some \<lparr>item_id = Some ''a''\<rparr>, entry_id = Some ''a'',
                  entry_status = 200\<rparr>,
                 \<lparr>entry_data = None, entry_id = Some ''b'', entry_status = 404\<rparr>,
                 \<lparr>entry_data = Some \<lparr>item_id = Some ''c''\<rparr>, entry_id = Some ''c'',
                  entry_status = 200\<rparr>]"
    by simp
  with r bulk show ?thesis by simp
qed

section \<open>The queries\<close>

lemma list_query_events:
  "new_events w (snd (list_query db c q w)) = [IterateCall c q (fst (query_iterate db c q (store w)))]"
  by (simp add: list_query_def dispatch_def new_events_def split: prod.splits sum.splits)

text \<open>
  Claim C5. The query of \<^verbatim>\<open>getProjects\<close>: without a \<^verbatim>\<open>user\<close> key it is the base query with
  no user clause; with the key present and a falsy value the clause
  \<^verbatim>\<open>AND metadata.permissions.public = true\<close> is appended; with a truthy user the clause
  appended asks for public, or the user among the owners, the editors or the viewers. The
  query built is the one sent to the metadata container.
\<close>

theorem getProjects_user_filter:
  "getProjects_query \<lparr>user = None\<rparr>
     = ''SELECT * FROM metadata WHERE metadata.type = 'Project'' @ [CHR 0x27]
   \<and> (\<not> truthy u \<longrightarrow>
        getProjects_query \<lparr>user = Some u\<rparr>
          = ''SELECT * FROM metadata WHERE metadata.type = 'Project'' @ [CHR 0x27]
            @ '' AND metadata.permissions.public = true'')
   \<and> (truthy u \<longrightarrow>
        getProjects_query \<lparr>user = Some u\<rparr>
          = ''SELECT * FROM metadata WHERE metadata.type = 'Project'' @ [CHR 0x27]
            @ '' AND (\<newline>''
            @ ''          metadata.permissions.public = true\<newline>''
            @ ''          OR\<newline>''
            @ ''          ARRAY_CONTAINS(metadata.permissions.owners, '' @ [CHR 0x27]
            @ template u @ [CHR 0x27] @ '')\<newline>''
            @ ''          OR\<newline>''
            @ ''          ARRAY_CONTAINS(metadata.permissions.editors, '' @ [CHR 0x27]
            @ template u @ [CHR 0x27] @ '')\<newline>''
            @ ''          OR\<newline>''
            @ ''          ARRAY_CONTAINS(metadata.permissions.viewers, '' @ [CHR 0x27]
            @ template u @ [CHR 0x27] @ '')\<newline>''
            @ ''        )'')
   \<and> new_events w (snd (getProjects db options w))
       = [IterateCall Metadata (getProjects_query options)
            (fst (query_iterate db Metadata (getProjects_query options) (store w)))]"
  by (simp add: getProjects_query_def user_clause_def getProjects_def list_query_events)

theorem getProjects_user_filter_witness:
  "\<not> truthy (Str '''')
   \<and> getProjects_query \<lparr>user = Some (Str '''')\<rparr>
       = ''SELECT * FROM metadata WHERE metadata.type = 'Project' AND metadata.permissions.public = true''
   \<and> truthy (Str ''u1'')
   \<and> getProjects_query \<lparr>user = Some (Str ''u1'')\<rparr>
       = ''SELECT * FROM metadata WHERE metadata.type = 'Project' AND (\<newline>''
         @ ''          metadata.permissions.public = true\<newline>''
         @ ''          OR\<newline>''
         @ ''          ARRAY_CONTAINS(metadata.permissions.owners, 'u1')\<newline>''
         @ ''          OR\<newline>''
         @ ''          ARRAY_CONTAINS(metadata.permissions.editors, 'u1')\<newline>''
         @ ''          OR\<newline>''
         @ ''          ARRAY_CONTAINS(metadata.permissions.viewers, 'u1')\<newline>''
         @ ''        )''"
  using getProjects_user_filter [where u = "Str ''''" and w = "mem_world []"
      and db = "mem_db ''test''" and options = "\<lparr>user = None\<rparr>"]
    getProjects_user_filter [where u = "Str ''u1''" and w = "mem_world []"
      and db = "mem_db ''test''" and options = "\<lparr>user = None\<rparr>"]
  by simp

text \<open>
  Claim C10. When the aggregate query of \<^verbatim>\<open>count\<close> resolves with no row, \<^verbatim>\<open>count\<close> throws
  a TypeError instead of returning; whenever \<^verbatim>\<open>count\<close> returns a response, the query gave
  at least one row, and the response carries the \<^verbatim>\<open>$1\<close> of the first row.
\<close>

theorem count_needs_first_row:
  "(types db type = Some c
      \<and> query_fetchAll db c (count_query (container_name c) type options) (store w)
          = (Inr [], s') \<longrightarrow>
      fst (count db type options w) = Inl TypeError)
   \<and> (fst (count db type options w) = Inr r \<longrightarrow>
      (\<exists>c row rest s'.
          types db type = Some c
        \<and> query_fetchAll db c (count_query (container_name c) type options) (store w)
            = (Inr (row # rest), s')
        \<and> r = \<lparr>data = Some (Count (dollar1 row)), message = None,
                 status = Some (default_status db)\<rparr>))"
  by (auto simp: count_def Let_def dispatch_def DatabaseResponse_def
      split: option.splits prod.splits sum.splits list.splits)

theorem count_needs_first_row_witness:
  "types ((mem_db ''test'')\<lparr>query_fetchAll := \<lambda>c q s. (Inr [], s)\<rparr>) ''Lexeme'' = Some Data
   \<and> fst (count ((mem_db ''test'')\<lparr>query_fetchAll := \<lambda>c q s. (Inr [], s)\<rparr>) ''Lexeme''
            \<lparr>language = Undefined, project = Undefined\<rparr> (mem_world []))
       = Inl TypeError
   \<and> fst (count (mem_db ''test'') ''Lexeme'' \<lparr>language = Undefined, project = Undefined\<rparr>
            (mem_world [\<lparr>item_id = Some ''a''\<rparr>]))
       = Inr \<lparr>data = Some (Count (Some 1)), message = None, status = Some 200\<rparr>"
  using count_needs_first_row [of "(mem_db ''test'')\<lparr>query_fetchAll := \<lambda>c q s. (Inr [], s)\<rparr>"
      "''Lexeme''" Data "\<lparr>language = Undefined, project = Undefined\<rparr>" "mem_world []" "[]"]
    count_needs_first_row [of "mem_db ''test''" "''Lexeme''" _
      "\<lparr>language = Undefined, project = Undefined\<rparr>" "mem_world [\<lparr>item_id = Some ''a''\<rparr>]" _
      "\<lparr>data = Some (Count (Some 1)), message = None, status = Some 200\<rparr>"]
  by (simp add: mem_db_def mem_types_def mem_world_def count_def Let_def dispatch_def
      DatabaseResponse_def)

section \<open>Adding one item\<close>

text \<open>
  Claim C6. When validation passes and the provider rejects the create, \<^verbatim>\<open>addOne\<close> returns
  a response without data: for an error with code 409 the message is
  \<^verbatim>\<open>Item with ID <data.id> already exists.\<close> (the id as it is after the call) and the status
  is 409; for any other error the message is the error's own message and the status its
  code (the constructor's default when the error has no code). When the provider rejects
  two successive creates of the same item with code 409, both calls of \<^verbatim>\<open>addOne\<close> return
  the same response, which depends on the id alone.
\<close>

theorem addOne_conflict_message:
  "(validate db d = None \<and> items_create db c d (store w) = ((Inl err, d'), s') \<longrightarrow>
      fst (addOne db c d w)
        = Inr \<lparr>data = None,
                message = Some (if err_code err = Some 409
                                then ''Item with ID ''
                                       @ (case item_id d' of None \<Rightarrow> ''undefined'' | Some i \<Rightarrow> i)
                                       @ '' already exists.''
                                else err_message err),
                status = Some (case err_code err of None \<Rightarrow> default_status db
                                 | Some k \<Rightarrow> k)\<rparr>)
   \<and> (validate db d0 = None \<and> item_id d0 = Some i
        \<and> items_create db c d0 (store w) = ((Inl e1, d0), s1) \<and> err_code e1 = Some 409
        \<and> items_create db c d0 s1 = ((Inl e2, d0), s2) \<and> err_code e2 = Some 409 \<longrightarrow>
      fst (addOne db c d0 w)
        = Inr \<lparr>data = None, message = Some (''Item with ID '' @ i @ '' already exists.''),
                status = Some 409\<rparr>
      \<and> fst (addOne db c d0 (snd (addOne db c d0 w))) = fst (addOne db c d0 w))"
  by (simp add: addOne_def dispatch_def DatabaseResponse_def)

theorem addOne_conflict_message_witness:
  "validate (mem_db ''test'') \<lparr>item_id = Some ''a''\<rparr> = None
   \<and> items_create (mem_db ''test'') Data \<lparr>item_id = Some ''a''\<rparr>
        (store (mem_world [\<lparr>item_id = Some ''a''\<rparr>]))
      = ((Inl \<lparr>err_code = Some 409, err_message = ''Conflict''\<rparr>, \<lparr>item_id = Some ''a''\<rparr>),
         [\<lparr>item_id = Some ''a''\<rparr>])
   \<and> fst (addOne (mem_db ''test'') Data \<lparr>item_id = Some ''a''\<rparr>
            (mem_world [\<lparr>item_id = Some ''a''\<rparr>]))
      = Inr \<lparr>data = None, message = Some ''Item with ID a already exists.'',
              status = Some 409\<rparr>
   \<and> fst (addOne (mem_db ''test'') Data \<lparr>item_id = Some ''a''\<rparr>
            (snd (addOne (mem_db ''test'') Data \<lparr>item_id = Some ''a''\<rparr>
                    (mem_world [\<lparr>item_id = Some ''a''\<rparr>]))))
      = Inr \<lparr>data = None, message = Some ''Item with ID a already exists.'',
              status = Some 409\<rparr>
   \<and> fst (addOne (failing_db ''test'') Data \<lparr>item_id = Some ''a''\<rparr> (mem_world []))
      = Inr \<lparr>data = None, message = Some ''Service Unavailable'', status = Some 503\<rparr>"
proof -
  let ?d = "\<lparr>item_id = Some ''a''\<rparr>"
  let ?w = "mem_world [?d]"
  let ?e = "\<lparr>err_code = Some 409, err_message = ''Conflict''\<rparr>"
  have v: "validate (mem_db ''test'') ?d = None"
    by (simp add: mem_db_def mem_validate_def)
  have cr: "items_create (mem_db ''test'') Data ?d (store ?w) = ((Inl ?e, ?d), [?d])"
    by (simp add: mem_db_def mem_world_def mem_create_def mem_find_def)
  have cr2: "items_create (mem_db ''test'') Data ?d [?d] = ((Inl ?e, ?d), [?d])"
    by (simp add: mem_db_def mem_create_def mem_find_def)
  have vf: "validate (failing_db ''test'') ?d = None"
    by (simp add: failing_db_def mem_validate_def)
  have crf: "items_create (failing_db ''test'') Data ?d (store (mem_world []))
      = ((Inl unavailable, ?d), [])"
    by (simp add: failing_db_def mem_world_def)
  from addOne_conflict_message [of "mem_db ''test''" ?d Data ?w ?e ?d "[?d]" ?d "''a''" ?e "[?d]"
      ?e "[?d]"] v cr cr2
  have "fst (addOne (mem_db ''test'') Data ?d ?w)
        = Inr \<lparr>data = None, message = Some ''Item with ID a already exists.'', status = Some 409\<rparr>
      \<and> fst (addOne (mem_db ''test'') Data ?d (snd (addOne (mem_db ''test'') Data ?d ?w)))
        = fst (addOne (mem_db ''test'') Data ?d ?w)"
    by simp
  moreover from addOne_conflict_message [of "failing_db ''test''" ?d Data "mem_world []"
      unavailable ?d "[]" ?d "''a''" unavailable "[]" unavailable "[]"] vf crf
  have "fst (addOne (failing_db ''test'') Data ?d (mem_world []))
      = Inr \<lparr>data = None, message = Some ''Service Unavailable'', status = Some 503\<rparr>"
    by (simp add: unavailable_def)
  ultimately show ?thesis using v cr by simp
qed

text \<open>
  Claim C7, the counterexample: the item is invalid, and \<^verbatim>\<open>addOne\<close> throws the validation
  error instead of returning a response (the store is not contacted).
\<close>

theorem addOne_validation_thrown:
  "addOne (mem_db ''test'') Data \<lparr>item_id = Some ''''\<rparr> (mem_world [])
     = (Inl (ValidationError \<lparr>err_code = None, err_message = ''Invalid ID''\<rparr>), mem_world [])"
  by (simp add: addOne_def mem_db_def mem_validate_def)

section \<open>What the operations return and what they throw\<close>

subsection \<open>The record is the provider's run\<close>

lemma replay_append:
  "replay db s (xs @ ys) = (case replay db s xs of None \<Rightarrow> None | Some s' \<Rightarrow> replay db s' ys)"
  by (induction xs arbitrary: s) (auto split: option.splits)

lemma rejections_append: "rejections (xs @ ys) = rejections xs @ rejections ys"
  by (simp add: rejections_def)

lemma new_events_same: "new_events w w = []"
  by (simp add: new_events_def)

lemma new_events_append: "events w' = events w @ evs \<Longrightarrow> new_events w w' = evs"
  by (simp add: new_events_def)

lemma propagates_return: "propagates db w False (Inr r, w)"
  by (simp add: propagates_def new_events_same rejections_def)

lemma propagates_type_error: "propagates db w True (Inl TypeError, w)"
  by (simp add: propagates_def new_events_same rejections_def)

lemma propagates_reject:
  assumes "events w1 = events w @ [ev]" "answered db (store w) ev = Some (store w1)"
    "rejection_of ev = [err]"
  shows "propagates db w te (Inl (ProviderError err), w1)"
  using assms by (simp add: propagates_def new_events_append rejections_def)

lemma propagates_step:
  assumes ev: "events w1 = events w @ [ev]" and ans: "answered db (store w) ev = Some (store w1)"
    and ok: "rejection_of ev = []" and rest: "propagates db w1 te out"
  shows "propagates db w te out"
proof -
  obtain res w' where out: "out = (res, w')" by (cases out)
  from rest out have e1: "events w' = events w1 @ new_events w1 w'"
    and r1: "replay db (store w1) (new_events w1 w') = Some (store w')"
    and c1: "(case rejections (new_events w1 w') of
             [] \<Rightarrow> if te then res = Inl TypeError else \<not> isl res
           | err # others \<Rightarrow>
               others = [] \<and> rejection_of (last (new_events w1 w')) = [err]
             \<and> res = Inl (ProviderError err))"
    by (simp_all add: propagates_def)
  from e1 ev have e: "events w' = events w @ (ev # new_events w1 w')" by simp
  then have n: "new_events w w' = ev # new_events w1 w'" by (rule new_events_append)
  have rj: "rejections (ev # new_events w1 w') = rejections (new_events w1 w')"
    using ok by (simp add: rejections_def)
  have nonempty: "new_events w1 w' \<noteq> []" if "rejections (new_events w1 w') \<noteq> []"
    using that by (auto simp: rejections_def)
  show ?thesis
    unfolding out propagates_def
    using e n r1 ans c1 rj nonempty
    by (auto split: list.splits)
qed

lemma dispatch_answered_batch:
  "dispatch (items_batch db c b pk) (BatchCall c b pk) w = (out, w1) \<Longrightarrow>
     events w1 = events w @ [BatchCall c b pk out]
     \<and> answered db (store w) (BatchCall c b pk out) = Some (store w1)"
  by (auto simp: dispatch_def split: prod.splits)

lemma dispatch_answered_bulk:
  "dispatch (items_bulk db c ops coe) (BulkCall c ops coe) w = (out, w1) \<Longrightarrow>
     events w1 = events w @ [BulkCall c ops coe out]
     \<and> answered db (store w) (BulkCall c ops coe out) = Some (store w1)"
  by (auto simp: dispatch_def split: prod.splits)

lemma dispatch_answered_create:
  "dispatch (items_create db c d) (\<lambda>r. CreateCall c d (fst r)) w = ((out, d'), w1) \<Longrightarrow>
     events w1 = events w @ [CreateCall c d out]
     \<and> answered db (store w) (CreateCall c d out) = Some (store w1)"
  by (auto simp: dispatch_def split: prod.splits)

lemma dispatch_answered_read:
  "dispatch (item_read db c ident pk) (ReadCall c ident pk) w = (out, w1) \<Longrightarrow>
     events w1 = events w @ [ReadCall c ident pk out]
     \<and> answered db (store w) (ReadCall c ident pk out) = Some (store w1)"
  by (auto simp: dispatch_def split: prod.splits)

lemma dispatch_answered_fetchAll:
  "dispatch (query_fetchAll db c q) (FetchAllCall c q) w = (out, w1) \<Longrightarrow>
     events w1 = events w @ [FetchAllCall c q out]
     \<and> answered db (store w) (FetchAllCall c q out) = Some (store w1)"
  by (auto simp: dispatch_def split: prod.splits)

lemma dispatch_answered_iterate:
  "dispatch (query_iterate db c q) (IterateCall c q) w = (out, w1) \<Longrightarrow>
     events w1 = events w @ [IterateCall c q out]
     \<and> answered db (store w) (IterateCall c q out) = Some (store w1)"
  by (auto simp: dispatch_def split: prod.splits)

lemma dispatch_answered_delete:
  "dispatch (database_delete db) DatabaseDeleteCall w = (out, w1) \<Longrightarrow>
     events w1 = events w @ [DatabaseDeleteCall out]
     \<and> answered db (store w) (DatabaseDeleteCall out) = Some (store w1)"
  by (auto simp: dispatch_def split: prod.splits)

lemma dispatch_answered_readAll:
  "dispatch (items_readAll db c) (ReadAllCall c) w = (out, w1) \<Longrightarrow>
     events w1 = events w @ [ReadAllCall c out]
     \<and> answered db (store w) (ReadAllCall c out) = Some (store w1)"
  by (auto simp: dispatch_def split: prod.splits)

lemma dispatch_answered_createDatabase:
  "dispatch (databases_createIfNotExists db name) (CreateDatabaseCall name) w = (out, w1) \<Longrightarrow>
     events w1 = events w @ [CreateDatabaseCall name out]
     \<and> answered db (store w) (CreateDatabaseCall name out) = Some (store w1)"
  by (auto simp: dispatch_def split: prod.splits)

lemma dispatch_answered_createContainer:
  "dispatch (containers_createIfNotExists db name path) (CreateContainerCall name path) w
     = (out, w1) \<Longrightarrow>
     events w1 = events w @ [CreateContainerCall name path out]
     \<and> answered db (store w) (CreateContainerCall name path out) = Some (store w1)"
  by (auto simp: dispatch_def split: prod.splits)

lemmas dispatch_answered =
  dispatch_answered_batch dispatch_answered_bulk dispatch_answered_create
  dispatch_answered_read dispatch_answered_fetchAll dispatch_answered_iterate
  dispatch_answered_delete dispatch_answered_readAll dispatch_answered_createDatabase
  dispatch_answered_createContainer

text \<open>One awaited call followed by a continuation that depends on how it settled.\<close>

lemma propagates_call:
  assumes d: "events w1 = events w @ [ev] \<and> answered db (store w) ev = Some (store w1)"
    and rej: "\<And>err. rejection_of ev = [err] \<Longrightarrow> out = (Inl (ProviderError err), w1)"
    and res: "rejection_of ev = [] \<Longrightarrow> propagates db w1 te out"
    and shape: "rejection_of ev = [] \<or> (\<exists>err. rejection_of ev = [err])"
  shows "propagates db w te out"
proof (cases "rejection_of ev = []")
  case True
  with d res show ?thesis by (auto intro: propagates_step)
next
  case False
  with shape obtain err where e: "rejection_of ev = [err]" by blast
  with d rej show ?thesis by (auto intro: propagates_reject)
qed

lemma getOne_propagates: "propagates db w False (getOne db c p ident w)"
proof -
  obtain out w1 where d: "dispatch (item_read db c ident p) (ReadCall c ident p) w = (out, w1)"
    by (cases "dispatch (item_read db c ident p) (ReadCall c ident p) w")
  note a = dispatch_answered_read[OF d]
  show ?thesis
  proof (cases out)
    case (Inl err)
    with d a show ?thesis
      by (auto simp: getOne_def rejected_with_def intro: propagates_reject)
  next
    case (Inr r)
    with d a show ?thesis
      by (auto simp: getOne_def rejected_with_def intro!: propagates_step[OF _ _ _ propagates_return])
  qed
qed

subsection \<open>The operations that catch nothing\<close>

lemma list_query_propagates: "propagates db w False (list_query db c q w)"
proof -
  obtain out w1 where d: "dispatch (query_iterate db c q) (IterateCall c q) w = (out, w1)"
    by (cases "dispatch (query_iterate db c q) (IterateCall c q) w")
  note a = dispatch_answered_iterate[OF d]
  show ?thesis
  proof (cases out)
    case (Inl err)
    with d a show ?thesis
      by (auto simp: list_query_def rejected_with_def intro: propagates_reject)
  next
    case (Inr pages)
    with d a show ?thesis
      by (auto simp: list_query_def rejected_with_def
          intro!: propagates_step[OF _ _ _ propagates_return])
  qed
qed

lemma getMany_entries_long:
  "length operations < length results \<Longrightarrow> getMany_entries results operations = Inl TypeError"
  by (induction results operations rule: getMany_entries.induct) simp_all

lemma getMany_propagates:
  "propagates db w
     (length ids \<le> 100
      \<and> (\<exists>results. fst (items_bulk db c (read_operations pk ids) True (store w)) = Inr results
            \<and> length ids < length results))
     (getMany db c pk ids w)"
proof (cases "100 < length ids")
  case True
  then show ?thesis
    using propagates_return[of db w] by (simp add: getMany_def bulkLimit_def)
next
  case False
  let ?ops = "read_operations pk ids :: 'b operation list"
  obtain out w1 where d: "dispatch (items_bulk db c ?ops True) (BulkCall c ?ops True) w = (out, w1)"
    by (cases "dispatch (items_bulk db c ?ops True) (BulkCall c ?ops True) w")
  note a = dispatch_answered_bulk[OF d]
  from d have f: "fst (items_bulk db c ?ops True (store w)) = out"
    by (auto simp: dispatch_def split: prod.splits)
  show ?thesis
  proof (cases out)
    case (Inl err)
    with d a False show ?thesis
      by (auto simp: getMany_def bulkLimit_def Let_def rejected_with_def
          intro: propagates_reject)
  next
    case (Inr results)
    show ?thesis
    proof (cases "length results \<le> length ids")
      case True
      then have "getMany_entries results ?ops
        = Inr (map2 (\<lambda>r operation. \<lparr>entry_data = resourceBody r, entry_id = op_id operation,
                                   entry_status = statusCode r\<rparr>) results ?ops)"
        by (intro getMany_entries_zip) (simp add: read_operations_def)
      with d a False Inr True f show ?thesis
        by (auto simp: getMany_def bulkLimit_def Let_def rejected_with_def
            intro!: propagates_step[OF _ _ _ propagates_return])
    next
      case long: False
      then have "length ?ops < length results" by (simp add: read_operations_def)
      then have "getMany_entries results ?ops = Inl TypeError"
        by (rule getMany_entries_long)
      with d a False Inr long f show ?thesis
        by (auto simp: getMany_def bulkLimit_def Let_def rejected_with_def
            intro!: propagates_step[OF _ _ _ propagates_type_error])
    qed
  qed
qed

lemma count_propagates:
  "propagates db w
     (case types db type of
        None \<Rightarrow> True
      | Some c \<Rightarrow>
          fst (query_fetchAll db c (count_query (container_name c) type fo) (store w)) = Inr [])
     (count db type fo w)"
proof (cases "types db type")
  case None
  then show ?thesis using propagates_type_error[of db w] by (simp add: count_def)
next
  case (Some c)
  let ?q = "count_query (container_name c) type fo"
  obtain out w1 where d: "dispatch (query_fetchAll db c ?q) (FetchAllCall c ?q) w = (out, w1)"
    by (cases "dispatch (query_fetchAll db c ?q) (FetchAllCall c ?q) w")
  note a = dispatch_answered_fetchAll[OF d]
  from d have f: "fst (query_fetchAll db c ?q (store w)) = out"
    by (auto simp: dispatch_def split: prod.splits)
  show ?thesis
  proof (cases out)
    case (Inl err)
    with d a Some f show ?thesis
      by (auto simp: count_def Let_def rejected_with_def intro: propagates_reject)
  next
    case (Inr resources)
    show ?thesis
    proof (cases resources)
      case Nil
      with d a Some f Inr show ?thesis
        by (auto simp: count_def Let_def rejected_with_def
            intro!: propagates_step[OF _ _ _ propagates_type_error])
    next
      case (Cons row rest)
      with d a Some f Inr show ?thesis
        by (auto simp: count_def Let_def rejected_with_def
            intro!: propagates_step[OF _ _ _ propagates_return])
    qed
  qed
qed

lemma addMany_batches_propagates:
  "propagates db w False (addMany_batches db c pk batches results w)"
proof (induction batches arbitrary: results w)
  case Nil
  show ?case by (simp add: propagates_return)
next
  case (Cons b bs)
  obtain out w1 where d:
    "dispatch (items_batch db c b (Some pk)) (BatchCall c b (Some pk)) w = (out, w1)"
    by (cases "dispatch (items_batch db c b (Some pk)) (BatchCall c b (Some pk)) w")
  note a = dispatch_answered_batch[OF d]
  show ?case
  proof (cases out)
    case (Inl err)
    with d a show ?thesis by (auto simp: rejected_with_def intro: propagates_reject)
  next
    case (Inr response)
    with d a Cons.IH[of w1 "results @ result response"] show ?thesis
      by (auto simp: rejected_with_def
          intro: propagates_step[OF _ _ _ propagates_return] propagates_step)
  qed
qed

lemma addMany_propagates: "propagates db w False (addMany db c pk items w)"
  by (simp add: addMany_def chunk_def bulkLimit_def addMany_batches_propagates)

lemma delete_propagates:
  "dbName db \<noteq> ''digitallinguistics'' \<Longrightarrow> propagates db w False (delete db w)"
proof -
  assume n: "dbName db \<noteq> ''digitallinguistics''"
  obtain out w1 where d: "dispatch (database_delete db) DatabaseDeleteCall w = (out, w1)"
    by (cases "dispatch (database_delete db) DatabaseDeleteCall w")
  note a = dispatch_answered_delete[OF d]
  show ?thesis
  proof (cases out)
    case (Inl err)
    with d a n show ?thesis
      by (auto simp: delete_def rejected_with_def intro: propagates_reject)
  next
    case (Inr u)
    with d a n show ?thesis
      by (auto simp: delete_def rejected_with_def
          intro!: propagates_step[OF _ _ _ propagates_return])
  qed
qed

lemma seedOne_propagates:
  "validate db d = None \<Longrightarrow> propagates db w False (seedOne db c d w)"
proof -
  assume v: "validate db d = None"
  obtain out d' w1 where
    d: "dispatch (items_create db c d) (\<lambda>r. CreateCall c d (fst r)) w = ((out, d'), w1)"
    by (cases "dispatch (items_create db c d) (\<lambda>r. CreateCall c d (fst r)) w") auto
  note a = dispatch_answered_create[OF d]
  show ?thesis
  proof (cases out)
    case (Inl err)
    with d a v show ?thesis
      by (auto simp: seedOne_def rejected_with_def intro: propagates_reject)
  next
    case (Inr created)
    with d a v show ?thesis
      by (auto simp: seedOne_def rejected_with_def
          intro!: propagates_step[OF _ _ _ propagates_return])
  qed
qed

lemma seedMany_batches_propagates:
  "propagates db w False (seedMany_batches db c pk batches results w)"
proof (induction batches arbitrary: results w)
  case Nil
  show ?case by (simp add: propagates_return)
next
  case (Cons b bs)
  obtain out w1 where d: "dispatch (items_batch db c b pk) (BatchCall c b pk) w = (out, w1)"
    by (cases "dispatch (items_batch db c b pk) (BatchCall c b pk) w")
  note a = dispatch_answered_batch[OF d]
  show ?case
  proof (cases out)
    case (Inl err)
    with d a show ?thesis by (auto simp: rejected_with_def intro: propagates_reject)
  next
    case (Inr response)
    with d a Cons.IH[of w1 "results @ result response"] show ?thesis
      by (auto simp: rejected_with_def intro: propagates_step)
  qed
qed

lemma seedMany_propagates:
  "validate db d = None \<Longrightarrow> propagates db w False (seedMany db c n d w)"
  by (simp add: seedMany_def Let_def chunk_def bulkLimit_def seedMany_batches_propagates)

lemma setup_database_propagates: "propagates db w False (setup_database db w)"
proof -
  let ?n = "dbName db"
  obtain o1 w1 where d1:
    "dispatch (databases_createIfNotExists db ?n) (CreateDatabaseCall ?n) w = (o1, w1)"
    by (cases "dispatch (databases_createIfNotExists db ?n) (CreateDatabaseCall ?n) w")
  obtain o2 w2 where d2:
    "dispatch (containers_createIfNotExists db ''data'' ''/language/id'')
       (CreateContainerCall ''data'' ''/language/id'') w1 = (o2, w2)"
    by (cases "dispatch (containers_createIfNotExists db ''data'' ''/language/id'')
       (CreateContainerCall ''data'' ''/language/id'') w1")
  obtain o3 w3 where d3:
    "dispatch (containers_createIfNotExists db ''metadata'' ''/type'')
       (CreateContainerCall ''metadata'' ''/type'') w2 = (o3, w3)"
    by (cases "dispatch (containers_createIfNotExists db ''metadata'' ''/type'')
       (CreateContainerCall ''metadata'' ''/type'') w2")
  note a1 = dispatch_answered_createDatabase[OF d1]
  note a2 = dispatch_answered_createContainer[OF d2]
  note a3 = dispatch_answered_createContainer[OF d3]
  have p3: "propagates db w2 False
      (case o3 of Inl err \<Rightarrow> (Inl (ProviderError err), w3) | Inr u \<Rightarrow> (Inr (), w3))"
    using a3 by (cases o3)
      (auto simp: rejected_with_def intro: propagates_reject
        intro!: propagates_step[OF _ _ _ propagates_return])
  have p2: "propagates db w1 False
      (case o2 of Inl err \<Rightarrow> (Inl (ProviderError err), w2)
       | Inr u \<Rightarrow> (case o3 of Inl err \<Rightarrow> (Inl (ProviderError err), w3) | Inr u \<Rightarrow> (Inr (), w3)))"
    using a2 p3 by (cases o2)
      (auto simp: rejected_with_def intro: propagates_reject propagates_step)
  have p1: "propagates db w False
      (case o1 of Inl err \<Rightarrow> (Inl (ProviderError err), w1)
       | Inr u \<Rightarrow>
          (case o2 of Inl err \<Rightarrow> (Inl (ProviderError err), w2)
           | Inr u \<Rightarrow> (case o3 of Inl err \<Rightarrow> (Inl (ProviderError err), w3)
                        | Inr u \<Rightarrow> (Inr (), w3))))"
    using a1 p2 by (cases o1)
      (auto simp: rejected_with_def intro: propagates_reject propagates_step)
  then show ?thesis
    using d1 d2 d3 by (auto simp: setup_database_def split: sum.splits)
qed

subsection \<open>Clearing one container\<close>

lemma delete_operations_Inl:
  "delete_operations c batch = Inl t \<Longrightarrow> t = TypeError \<and> lacking c batch"
  by (induction batch arbitrary: t)
    (auto simp: lacking_def split: container.splits option.splits sum.splits)

lemma delete_operations_Inr:
  "delete_operations c batch = Inr ops \<Longrightarrow> \<not> lacking c batch"
  by (induction batch arbitrary: ops)
    (auto simp: lacking_def split: container.splits option.splits sum.splits)

lemma lacking_append: "lacking c (xs @ ys) = (lacking c xs \<or> lacking c ys)"
  by (auto simp: lacking_def)

lemma clearContainer_batches_propagates:
  "propagates db w (lacking c (concat batches)) (clearContainer_batches db c batches w)"
proof (induction batches arbitrary: w)
  case Nil
  show ?case by (simp add: lacking_def propagates_return)
next
  case (Cons batch batches)
  show ?case
  proof (cases "delete_operations c batch")
    case (Inl t)
    from delete_operations_Inl[OF this] have "t = TypeError" "lacking c batch" by simp_all
    with Inl show ?thesis
      using propagates_type_error[of db w] by (simp add: lacking_append)
  next
    case (Inr ops)
    from delete_operations_Inr[OF this]
    have te: "lacking c (concat (batch # batches)) = lacking c (concat batches)"
      by (simp add: lacking_append)
    obtain out w1 where d:
      "dispatch (items_bulk db c ops False) (BulkCall c ops False) w = (out, w1)"
      by (cases "dispatch (items_bulk db c ops False) (BulkCall c ops False) w")
    note a = dispatch_answered_bulk[OF d]
    show ?thesis
    proof (cases out)
      case (Inl err)
      with d a Inr show ?thesis
        by (auto simp: rejected_with_def intro: propagates_reject)
    next
      case r: (Inr results)
      with d a Inr Cons.IH[of w1] show ?thesis
        unfolding te by (auto simp: rejected_with_def intro: propagates_step)
    qed
  qed
qed

lemma clearContainer_propagates:
  "propagates db w
     (\<exists>resources. fst (items_readAll db c (store w)) = Inr resources \<and> lacking c resources)
     (clearContainer db c w)"
proof -
  obtain out w1 where d: "dispatch (items_readAll db c) (ReadAllCall c) w = (out, w1)"
    by (cases "dispatch (items_readAll db c) (ReadAllCall c) w")
  note a = dispatch_answered_readAll[OF d]
  from d have f: "fst (items_readAll db c (store w)) = out"
    by (auto simp: dispatch_def split: prod.splits)
  show ?thesis
  proof (cases out)
    case (Inl err)
    with d a show ?thesis
      by (auto simp: clearContainer_def rejected_with_def intro: propagates_reject)
  next
    case (Inr resources)
    have c: "concat (chunk_groups resources 100) = resources"
      by (simp add: concat_chunk_groups)
    from Inr f have te: "(\<exists>resources. fst (items_readAll db c (store w)) = Inr resources
        \<and> lacking c resources) = lacking c (concat (chunk_groups resources 100))"
      by (simp add: c)
    from d a Inr clearContainer_batches_propagates[of db w1 c "chunk_groups resources 100"]
    show ?thesis
      unfolding te
      by (auto simp: clearContainer_def chunk_def bulkLimit_def rejected_with_def
          intro: propagates_step)
  qed
qed

subsection \<open>Clearing both containers at once\<close>

lemma missing_language_mono: "missing_language evs \<Longrightarrow> missing_language (evs @ evs')"
  by (auto simp: missing_language_def)

lemma thrown_ok_mono: "thrown_ok e evs \<Longrightarrow> thrown_ok e (evs @ evs')"
  by (auto simp: thrown_ok_def rejections_append dest: missing_language_mono)

lemma run_ok_mono: "run_ok c t evs \<Longrightarrow> run_ok c t (evs @ evs')"
  by (auto simp: run_ok_def split: clearing.splits dest: missing_language_mono thrown_ok_mono)

lemma next_call_ok:
  assumes "lacking c (concat batches) \<longrightarrow> missing_language evs"
  shows "run_ok c (next_call c batches) evs"
proof (cases batches)
  case Nil
  then show ?thesis by (simp add: run_ok_def)
next
  case (Cons b bs)
  show ?thesis
  proof (cases "delete_operations c b")
    case (Inl t)
    from delete_operations_Inl[OF this] assms Cons have "t = TypeError" "missing_language evs"
      by (simp_all add: lacking_append)
    with Inl Cons show ?thesis by (simp add: run_ok_def thrown_ok_def)
  next
    case (Inr ops)
    with assms Cons show ?thesis by (simp add: run_ok_def lacking_append)
  qed
qed

lemma clearing_step_ok:
  assumes step: "clearing_step db c t w = (t', w')" and ok: "run_ok c t pre"
  shows "\<exists>evs. events w' = events w @ evs \<and> replay db (store w) evs = Some (store w')
           \<and> run_ok c t' (pre @ evs)
           \<and> (rejections evs \<noteq> [] \<longrightarrow> (\<exists>e. t' = Settled (Inl e)))"
proof (cases t)
  case Reading
  obtain out w1 where d: "dispatch (items_readAll db c) (ReadAllCall c) w = (out, w1)"
    by (cases "dispatch (items_readAll db c) (ReadAllCall c) w")
  note a = dispatch_answered_readAll[OF d]
  show ?thesis
  proof (cases out)
    case (Inl err)
    with step Reading d have "t' = Settled (Inl (ProviderError err))" "w' = w1" by simp_all
    with a Inl show ?thesis
      by (intro exI[of _ "[ReadAllCall c out]"])
        (simp add: run_ok_def thrown_ok_def rejections_def rejected_with_def)
  next
    case (Inr resources)
    with step Reading d have t': "t' = next_call c (chunk_groups resources 100)" and w': "w' = w1"
      by (simp_all add: chunk_def bulkLimit_def)
    have "lacking c (concat (chunk_groups resources 100))
        \<longrightarrow> missing_language (pre @ [ReadAllCall c out])"
      using Inr by (auto simp: concat_chunk_groups lacking_def missing_language_def)
    then have "run_ok c t' (pre @ [ReadAllCall c out])" unfolding t' by (rule next_call_ok)
    with a Inr w' show ?thesis
      by (intro exI[of _ "[ReadAllCall c out]"]) (simp add: rejections_def rejected_with_def)
  qed
next
  case (Calling ops batches)
  obtain out w1 where d: "dispatch (items_bulk db c ops False) (BulkCall c ops False) w = (out, w1)"
    by (cases "dispatch (items_bulk db c ops False) (BulkCall c ops False) w")
  note a = dispatch_answered_bulk[OF d]
  show ?thesis
  proof (cases out)
    case (Inl err)
    with step Calling d have "t' = Settled (Inl (ProviderError err))" "w' = w1" by simp_all
    with a Inl show ?thesis
      by (intro exI[of _ "[BulkCall c ops False out]"])
        (simp add: run_ok_def thrown_ok_def rejections_def rejected_with_def)
  next
    case (Inr results)
    with step Calling d have t': "t' = next_call c batches" and w': "w' = w1" by simp_all
    from ok Calling have "lacking c (concat batches)
        \<longrightarrow> missing_language (pre @ [BulkCall c ops False out])"
      by (auto simp: run_ok_def dest: missing_language_mono)
    then have "run_ok c t' (pre @ [BulkCall c ops False out])" unfolding t' by (rule next_call_ok)
    with a Inr w' show ?thesis
      by (intro exI[of _ "[BulkCall c ops False out]"]) (simp add: rejections_def rejected_with_def)
  qed
next
  case (Settled r)
  with step ok show ?thesis
    by (intro exI[of _ "[]"]) (auto simp: rejections_def)
qed

lemma propagates_ok:
  assumes p: "propagates db w te (r, w')" and te: "te \<longrightarrow> missing_language pre"
  shows "\<exists>evs. events w' = events w @ evs \<and> replay db (store w) evs = Some (store w')
           \<and> (\<forall>e. r = Inl e \<longrightarrow> thrown_ok e (pre @ evs))
           \<and> (rejections evs \<noteq> [] \<longrightarrow> (\<exists>e. r = Inl e))"
proof (intro exI[of _ "new_events w w'"] conjI)
  from p show "events w' = events w @ new_events w w'" by (simp add: propagates_def)
  from p show "replay db (store w) (new_events w w') = Some (store w')"
    by (simp add: propagates_def)
  from p te show "\<forall>e. r = Inl e \<longrightarrow> thrown_ok e (pre @ new_events w w')"
    by (cases "rejections (new_events w w')")
      (auto simp: propagates_def thrown_ok_def rejections_append
        dest: missing_language_mono split: if_splits)
  from p show "rejections (new_events w w') \<noteq> [] \<longrightarrow> (\<exists>e. r = Inl e)"
    by (cases "rejections (new_events w w')") (auto simp: propagates_def)
qed

lemma clearing_finish_next_call:
  "clearing_finish db c (next_call c batches) w = clearContainer_batches db c batches w"
  by (cases batches) (auto split: sum.splits)

lemma clearing_finish_calling_propagates:
  "propagates db w (lacking c (concat batches)) (clearing_finish db c (Calling ops batches) w)"
proof -
  obtain out w1 where d: "dispatch (items_bulk db c ops False) (BulkCall c ops False) w = (out, w1)"
    by (cases "dispatch (items_bulk db c ops False) (BulkCall c ops False) w")
  note a = dispatch_answered_bulk[OF d]
  show ?thesis
  proof (cases out)
    case (Inl err)
    with d a show ?thesis by (auto simp: rejected_with_def intro: propagates_reject)
  next
    case (Inr results)
    with d a clearContainer_batches_propagates[of db w1 c batches] show ?thesis
      by (auto simp: rejected_with_def intro: propagates_step)
  qed
qed

lemma clearing_finish_settled_ok:
  assumes fin: "clearing_finish db c t w = (r, w')" and ok: "run_ok c t pre"
    and nr: "t \<noteq> Reading"
  shows "\<exists>evs. events w' = events w @ evs \<and> replay db (store w) evs = Some (store w')
           \<and> (\<forall>e. r = Inl e \<longrightarrow> thrown_ok e (pre @ evs))
           \<and> (rejections evs \<noteq> [] \<longrightarrow> (\<exists>e. r = Inl e))"
proof (cases t)
  case Reading
  with nr show ?thesis by simp
next
  case (Calling ops batches)
  from clearing_finish_calling_propagates[of db w c batches ops] fin Calling
  have "propagates db w (lacking c (concat batches)) (r, w')" by simp
  moreover from ok Calling have "lacking c (concat batches) \<longrightarrow> missing_language pre"
    by (simp add: run_ok_def)
  ultimately show ?thesis by (rule propagates_ok)
next
  case (Settled r0)
  with fin ok show ?thesis
    by (intro exI[of _ "[]"]) (auto simp: run_ok_def rejections_def)
qed

lemma next_call_not_Reading: "next_call c bs \<noteq> Reading"
  by (cases bs) (auto split: sum.splits)

lemma clearing_step_not_Reading: "fst (clearing_step db c t w) \<noteq> Reading"
  by (cases t)
    (auto simp: chunk_def bulkLimit_def next_call_not_Reading split: prod.splits sum.splits)

lemma clearing_finish_step:
  "clearing_finish db c t w
     = (case clearing_step db c t w of (t', w1) \<Rightarrow> clearing_finish db c t' w1)"
  by (cases t)
    (auto simp: clearContainer_def chunk_def bulkLimit_def clearing_finish_next_call
      split: prod.splits sum.splits)

lemma clearing_finish_ok:
  assumes fin: "clearing_finish db c t w = (r, w')" and ok: "run_ok c t pre"
  shows "\<exists>evs. events w' = events w @ evs \<and> replay db (store w) evs = Some (store w')
           \<and> (\<forall>e. r = Inl e \<longrightarrow> thrown_ok e (pre @ evs))
           \<and> (rejections evs \<noteq> [] \<longrightarrow> (\<exists>e. r = Inl e))"
proof -
  obtain t1 w1 where st: "clearing_step db c t w = (t1, w1)"
    by (cases "clearing_step db c t w")
  from clearing_step_ok[OF st ok] obtain evs1 where
    e1: "events w1 = events w @ evs1" and r1: "replay db (store w) evs1 = Some (store w1)"
    and k1: "run_ok c t1 (pre @ evs1)"
    and j1: "rejections evs1 \<noteq> [] \<longrightarrow> (\<exists>e. t1 = Settled (Inl e))"
    by blast
  from clearing_step_not_Reading[of db c t w] st have nr: "t1 \<noteq> Reading" by simp
  from fin st have fin1: "clearing_finish db c t1 w1 = (r, w')"
    by (simp add: clearing_finish_step[of db c t w])
  from clearing_finish_settled_ok[OF fin1 k1 nr] obtain evs2 where
    e2: "events w' = events w1 @ evs2" and r2: "replay db (store w1) evs2 = Some (store w')"
    and t2: "\<forall>e. r = Inl e \<longrightarrow> thrown_ok e ((pre @ evs1) @ evs2)"
    and j2: "rejections evs2 \<noteq> [] \<longrightarrow> (\<exists>e. r = Inl e)"
    by blast
  have j: "rejections (evs1 @ evs2) \<noteq> [] \<longrightarrow> (\<exists>e. r = Inl e)"
  proof
    assume "rejections (evs1 @ evs2) \<noteq> []"
    then consider "rejections evs1 \<noteq> []" | "rejections evs2 \<noteq> []"
      by (auto simp: rejections_append)
    then show "\<exists>e. r = Inl e"
    proof cases
      case 1
      with j1 obtain e where "t1 = Settled (Inl e)" by blast
      with fin1 show ?thesis by auto
    next
      case 2
      with j2 show ?thesis by blast
    qed
  qed
  show ?thesis
    using e1 e2 r1 r2 t2 j
    by (intro exI[of _ "evs1 @ evs2"]) (simp add: replay_append)
qed

lemma first_rejection_Some:
  "((case t of Settled (Inl e) \<Rightarrow> Some e | _ \<Rightarrow> None) = Some e0) = (t = Settled (Inl e0))"
  by (auto split: clearing.splits sum.splits)

lemma first_rejection_None:
  "((case t of Settled (Inl e) \<Rightarrow> Some e | _ \<Rightarrow> None) = None) = (\<forall>e. t \<noteq> Settled (Inl e))"
  by (auto split: clearing.splits sum.splits)

lemma run_ok_Settled: "run_ok c (Settled (Inl e)) evs \<Longrightarrow> thrown_ok e evs"
  by (simp add: run_ok_def)

lemma clear_inv_step_data:
  assumes inv: "clear_inv t1 t2 first pre"
    and st: "clearing_step db Data t1 w = (t1', w')"
  shows "\<exists>evs. events w' = events w @ evs \<and> replay db (store w) evs = Some (store w')
           \<and> clear_inv t1' t2
                (case first of
                   Some e \<Rightarrow> Some e
                 | None \<Rightarrow> (case t1' of Settled (Inl e) \<Rightarrow> Some e | _ \<Rightarrow> None))
                (pre @ evs)"
proof -
  from inv have ok: "run_ok Data t1 pre" by (simp add: clear_inv_def)
  from clearing_step_ok[OF st ok] obtain evs where
    e: "events w' = events w @ evs" and r: "replay db (store w) evs = Some (store w')"
    and k: "run_ok Data t1' (pre @ evs)"
    and j: "rejections evs \<noteq> [] \<longrightarrow> (\<exists>e. t1' = Settled (Inl e))"
    by blast
  have "clear_inv t1' t2
          (case first of
             Some e \<Rightarrow> Some e
           | None \<Rightarrow> (case t1' of Settled (Inl e) \<Rightarrow> Some e | _ \<Rightarrow> None))
          (pre @ evs)"
  proof (cases first)
    case (Some e0)
    with inv k show ?thesis
      by (auto simp: clear_inv_def dest: run_ok_mono thrown_ok_mono)
  next
    case None
    from inv None have o: "run_ok Metadata t2 pre" and n1: "\<forall>e. t1 \<noteq> Settled (Inl e)"
      and n2: "\<forall>e. t2 \<noteq> Settled (Inl e)" and q: "rejections pre = []"
      by (simp_all add: clear_inv_def)
    from o have o': "run_ok Metadata t2 (pre @ evs)" by (rule run_ok_mono)
    have a: "thrown_ok e (pre @ evs)" if "t1' = Settled (Inl e)" for e
      using k that by (auto dest: run_ok_Settled)
    have b: "rejections (pre @ evs) = []" if "\<forall>e. t1' \<noteq> Settled (Inl e)"
      using that j q by (auto simp: rejections_append)
    from None k o' n2 a b show ?thesis
      by (simp add: clear_inv_def first_rejection_Some first_rejection_None)
  qed
  with e r show ?thesis by blast
qed

lemma clear_inv_step_metadata:
  assumes inv: "clear_inv t1 t2 first pre"
    and st: "clearing_step db Metadata t2 w = (t2', w')"
  shows "\<exists>evs. events w' = events w @ evs \<and> replay db (store w) evs = Some (store w')
           \<and> clear_inv t1 t2'
                (case first of
                   Some e \<Rightarrow> Some e
                 | None \<Rightarrow> (case t2' of Settled (Inl e) \<Rightarrow> Some e | _ \<Rightarrow> None))
                (pre @ evs)"
proof -
  from inv have ok: "run_ok Metadata t2 pre" by (simp add: clear_inv_def)
  from clearing_step_ok[OF st ok] obtain evs where
    e: "events w' = events w @ evs" and r: "replay db (store w) evs = Some (store w')"
    and k: "run_ok Metadata t2' (pre @ evs)"
    and j: "rejections evs \<noteq> [] \<longrightarrow> (\<exists>e. t2' = Settled (Inl e))"
    by blast
  have "clear_inv t1 t2'
          (case first of
             Some e \<Rightarrow> Some e
           | None \<Rightarrow> (case t2' of Settled (Inl e) \<Rightarrow> Some e | _ \<Rightarrow> None))
          (pre @ evs)"
  proof (cases first)
    case (Some e0)
    with inv k show ?thesis
      by (auto simp: clear_inv_def dest: run_ok_mono thrown_ok_mono)
  next
    case None
    from inv None have o: "run_ok Data t1 pre" and n1: "\<forall>e. t1 \<noteq> Settled (Inl e)"
      and n2: "\<forall>e. t2 \<noteq> Settled (Inl e)" and q: "rejections pre = []"
      by (simp_all add: clear_inv_def)
    from o have o': "run_ok Data t1 (pre @ evs)" by (rule run_ok_mono)
    have a: "thrown_ok e (pre @ evs)" if "t2' = Settled (Inl e)" for e
      using k that by (auto dest: run_ok_Settled)
    have b: "rejections (pre @ evs) = []" if "\<forall>e. t2' \<noteq> Settled (Inl e)"
      using that j q by (auto simp: rejections_append)
    from None k o' n1 a b show ?thesis
      by (simp add: clear_inv_def first_rejection_Some first_rejection_None)
  qed
  with e r show ?thesis by blast
qed

lemma clear_interleave_ok:
  assumes "clear_interleave db schedule t1 t2 first w = ((t1', t2', first'), w')"
    and "clear_inv t1 t2 first pre"
  shows "\<exists>evs. events w' = events w @ evs \<and> replay db (store w) evs = Some (store w')
           \<and> clear_inv t1' t2' first' (pre @ evs)"
  using assms
proof (induction schedule arbitrary: t1 t2 first w pre)
  case Nil
  then show ?case by (intro exI[of _ "[]"]) simp
next
  case (Cons data_next schedule)
  show ?case
  proof (cases data_next)
    case True
    obtain ta wa where st: "clearing_step db Data t1 w = (ta, wa)"
      by (cases "clearing_step db Data t1 w")
    let ?f = "case first of Some e \<Rightarrow> Some e
              | None \<Rightarrow> (case ta of Settled (Inl e) \<Rightarrow> Some e | _ \<Rightarrow> None)"
    from clear_inv_step_data[OF Cons.prems(2) st] obtain evs1 where
      e1: "events wa = events w @ evs1" and r1: "replay db (store w) evs1 = Some (store wa)"
      and i1: "clear_inv ta t2 ?f (pre @ evs1)" by blast
    from Cons.prems(1) True st
    have "clear_interleave db schedule ta t2 ?f wa = ((t1', t2', first'), w')" by simp
    from Cons.IH[OF this i1] obtain evs2 where
      e2: "events w' = events wa @ evs2" and r2: "replay db (store wa) evs2 = Some (store w')"
      and i2: "clear_inv t1' t2' first' ((pre @ evs1) @ evs2)" by blast
    show ?thesis
      using e1 e2 r1 r2 i2 by (intro exI[of _ "evs1 @ evs2"]) (simp add: replay_append)
  next
    case False
    obtain tb wb where st: "clearing_step db Metadata t2 w = (tb, wb)"
      by (cases "clearing_step db Metadata t2 w")
    let ?f = "case first of Some e \<Rightarrow> Some e
              | None \<Rightarrow> (case tb of Settled (Inl e) \<Rightarrow> Some e | _ \<Rightarrow> None)"
    from clear_inv_step_metadata[OF Cons.prems(2) st] obtain evs1 where
      e1: "events wb = events w @ evs1" and r1: "replay db (store w) evs1 = Some (store wb)"
      and i1: "clear_inv t1 tb ?f (pre @ evs1)" by blast
    from Cons.prems(1) False st
    have "clear_interleave db schedule t1 tb ?f wb = ((t1', t2', first'), w')" by simp
    from Cons.IH[OF this i1] obtain evs2 where
      e2: "events w' = events wb @ evs2" and r2: "replay db (store wb) evs2 = Some (store w')"
      and i2: "clear_inv t1' t2' first' ((pre @ evs1) @ evs2)" by blast
    show ?thesis
      using e1 e2 r1 r2 i2 by (intro exI[of _ "evs1 @ evs2"]) (simp add: replay_append)
  qed
qed

lemma clear_ok:
  assumes run: "clear db schedule w = (res, w')"
  shows "events w' = events w @ new_events w w'
       \<and> replay db (store w) (new_events w w') = Some (store w')
       \<and> (\<forall>t. res = Inl t \<longrightarrow> thrown_ok t (new_events w w'))
       \<and> (\<forall>u. res = Inr u \<longrightarrow> rejections (new_events w w') = [])"
proof -
  obtain t1 t2 first w1 where il:
    "clear_interleave db schedule Reading Reading None w = ((t1, t2, first), w1)"
    by (cases "clear_interleave db schedule Reading Reading None w") auto
  obtain r1 w2 where f1: "clearing_finish db Data t1 w1 = (r1, w2)"
    by (cases "clearing_finish db Data t1 w1")
  obtain r2 w3 where f2: "clearing_finish db Metadata t2 w2 = (r2, w3)"
    by (cases "clearing_finish db Metadata t2 w2")
  from run il f1 f2 have w': "w' = w3"
    and res: "res = (case first of Some e \<Rightarrow> Inl e
                     | None \<Rightarrow> (case r1 of Inl e \<Rightarrow> Inl e | Inr u \<Rightarrow> r2))"
    by (simp_all add: clear_def)
  have init: "clear_inv Reading Reading None []"
    by (simp add: clear_inv_def run_ok_def rejections_def)
  from clear_interleave_ok[OF il init] obtain evs0 where
    e0: "events w1 = events w @ evs0" and p0: "replay db (store w) evs0 = Some (store w1)"
    and inv: "clear_inv t1 t2 first evs0" by auto
  from inv have k1: "run_ok Data t1 evs0" and k2: "run_ok Metadata t2 evs0"
    by (simp_all add: clear_inv_def)
  from clearing_finish_ok[OF f1 k1] obtain evs1 where
    e1: "events w2 = events w1 @ evs1" and p1: "replay db (store w1) evs1 = Some (store w2)"
    and t1: "\<forall>e. r1 = Inl e \<longrightarrow> thrown_ok e (evs0 @ evs1)"
    and j1: "rejections evs1 \<noteq> [] \<longrightarrow> (\<exists>e. r1 = Inl e)" by blast
  from k2 have k2': "run_ok Metadata t2 (evs0 @ evs1)" by (rule run_ok_mono)
  from clearing_finish_ok[OF f2 k2'] obtain evs2 where
    e2: "events w3 = events w2 @ evs2" and p2: "replay db (store w2) evs2 = Some (store w3)"
    and t2: "\<forall>e. r2 = Inl e \<longrightarrow> thrown_ok e ((evs0 @ evs1) @ evs2)"
    and j2: "rejections evs2 \<noteq> [] \<longrightarrow> (\<exists>e. r2 = Inl e)" by blast
  let ?evs = "evs0 @ evs1 @ evs2"
  from e0 e1 e2 w' have ev: "events w' = events w @ ?evs" by simp
  then have ne: "new_events w w' = ?evs" by (rule new_events_append)
  from p0 p1 p2 w' have rp: "replay db (store w) ?evs = Some (store w')"
    by (simp add: replay_append)
  have thr: "thrown_ok t ?evs" if "res = Inl t" for t
  proof (cases first)
    case (Some e)
    with that res have "t = e" by simp
    with Some inv have "thrown_ok t evs0" by (simp add: clear_inv_def)
    then show ?thesis by (rule thrown_ok_mono)
  next
    case None
    show ?thesis
    proof (cases r1)
      case (Inl e)
      with None that res have "t = e" by simp
      with Inl t1 have "thrown_ok t (evs0 @ evs1)" by simp
      then have "thrown_ok t ((evs0 @ evs1) @ evs2)" by (rule thrown_ok_mono)
      then show ?thesis by simp
    next
      case (Inr u)
      with None that res have "r2 = Inl t" by simp
      with t2 show ?thesis by simp
    qed
  qed
  have quiet: "rejections ?evs = []" if "res = Inr u" for u
  proof -
    from that res have n: "first = None" by (cases first) auto
    with that res have a: "\<exists>v. r1 = Inr v" by (cases r1) auto
    with that res n have b: "\<exists>v. r2 = Inr v" by (cases r1; cases r2) auto
    from n inv have "rejections evs0 = []" by (simp add: clear_inv_def)
    moreover from a j1 have "rejections evs1 = []" by auto
    moreover from b j2 have "rejections evs2 = []" by auto
    ultimately show ?thesis by (simp add: rejections_append)
  qed
  from ev ne rp thr quiet show ?thesis by simp
qed

subsection \<open>The calls of the single-call operations\<close>

lemma addOne_calls:
  "validate db d = None \<Longrightarrow>
     \<not> isl (fst (addOne db c d w))
     \<and> events (snd (addOne db c d w)) = events w @ new_events w (snd (addOne db c d w))
     \<and> new_events w (snd (addOne db c d w))
         = [CreateCall c d (fst (fst (items_create db c d (store w))))]
     \<and> replay db (store w) (new_events w (snd (addOne db c d w)))
         = Some (store (snd (addOne db c d w)))"
  by (auto simp: addOne_def dispatch_def new_events_def Let_def split: prod.splits sum.splits)

lemma seedOne_calls:
  "validate db d = None \<Longrightarrow>
     new_events w (snd (seedOne db c d w))
       = [CreateCall c d (fst (fst (items_create db c d (store w))))]"
  by (auto simp: seedOne_def dispatch_def new_events_def split: prod.splits sum.splits)

lemma delete_calls:
  "dbName db \<noteq> ''digitallinguistics'' \<Longrightarrow>
     new_events w (snd (delete db w)) = [DatabaseDeleteCall (fst (database_delete db (store w)))]"
  by (auto simp: delete_def dispatch_def new_events_def split: prod.splits sum.splits)

lemma getOne_calls:
  "new_events w (snd (getOne db c p ident w))
     = [ReadCall c ident p (fst (item_read db c ident p (store w)))]"
  by (auto simp: getOne_def dispatch_def new_events_def split: prod.splits sum.splits)

lemma count_calls:
  "types db type = Some c \<Longrightarrow>
     new_events w (snd (count db type fo w))
       = [FetchAllCall c (count_query (container_name c) type fo)
            (fst (query_fetchAll db c (count_query (container_name c) type fo) (store w)))]"
  by (auto simp: count_def Let_def dispatch_def new_events_def
      split: prod.splits sum.splits list.splits)

lemma count_unknown_type: "types db type = None \<Longrightarrow> count db type fo w = (Inl TypeError, w)"
  by (simp add: count_def)

text \<open>
  Claim C7, as amended. For every public operation, the calls recorded are what the
  provider did from the store the operation started with, and the result follows from how
  the provider settled them.

  \<^item> An error thrown by \<^verbatim>\<open>validate\<close> is thrown by \<^verbatim>\<open>addOne\<close>, \<^verbatim>\<open>seedOne\<close> and \<^verbatim>\<open>seedMany\<close>
    themselves, with the world unchanged (no provider call).
  \<^item> When validation passes, \<^verbatim>\<open>addOne\<close> makes one create call and returns a response
    whether the provider resolves or rejects it; \<^verbatim>\<open>seedOne\<close> makes the same call and
    \<^verbatim>\<open>seedMany\<close> its batch calls, and both return when no call is rejected and throw the
    provider's error when one is.
  \<^item> \<^verbatim>\<open>delete()\<close> throws its guard for the database named \<^verbatim>\<open>digitallinguistics\<close>, with the
    world unchanged; for any other name it makes the deletion call, returns when it
    resolves and throws the provider's error when it is rejected.
  \<^item> \<^verbatim>\<open>addMany\<close>, \<^verbatim>\<open>getOne\<close> (and the getters of one language, lexeme, project or
    reference, which are \<^verbatim>\<open>getOne\<close> at a fixed container and partition), the four list
    queries and \<^verbatim>\<open>setup()\<close> return when none of their provider calls is rejected, and throw
    the provider's own error, after its rejected call and with no later call, when one is.
  \<^item> \<^verbatim>\<open>getMany\<close> does the same, except that it throws a TypeError exactly when it is
    within the limit and the bulk call resolves with more results than operations.
  \<^item> \<^verbatim>\<open>count\<close> throws a TypeError with no provider call when the type has no container;
    otherwise it makes one query, throws the provider's error when the query is rejected,
    a TypeError exactly when it resolves with no row, and returns otherwise.
  \<^item> \<^verbatim>\<open>clearContainer\<close> returns when no call is rejected, except that it throws a
    TypeError exactly when the items read from the data container include one without
    \<^verbatim>\<open>language\<close>; it throws the provider's error when a call is rejected.
  \<^item> \<^verbatim>\<open>clear()\<close> runs the two \<^verbatim>\<open>clearContainer\<close> calls at once, interleaved as \<open>schedule\<close>
    says: when it returns no call was rejected, and what it throws is the error of a
    rejected call, or a TypeError after reading a data item without \<^verbatim>\<open>language\<close>.
\<close>

theorem operations_return_or_throw:
  fixes db :: "('s, 'z document_scheme) database"
  shows
  "(validate db d = Some e \<longrightarrow>
        addOne db c d w = (Inl (ValidationError e), w)
      \<and> seedOne db c d w = (Inl (ValidationError e), w)
      \<and> seedMany db c n d w = (Inl (ValidationError e), w))
   \<and> (validate db d1 = None \<longrightarrow>
        \<not> isl (fst (addOne db c d1 w))
      \<and> events (snd (addOne db c d1 w)) = events w @ new_events w (snd (addOne db c d1 w))
      \<and> new_events w (snd (addOne db c d1 w))
          = [CreateCall c d1 (fst (fst (items_create db c d1 (store w))))]
      \<and> replay db (store w) (new_events w (snd (addOne db c d1 w)))
          = Some (store (snd (addOne db c d1 w)))
      \<and> propagates db w False (seedOne db c d1 w)
      \<and> new_events w (snd (seedOne db c d1 w))
          = [CreateCall c d1 (fst (fst (items_create db c d1 (store w))))]
      \<and> propagates db w False (seedMany db c n d1 w))
   \<and> (dbName db = ''digitallinguistics'' \<longrightarrow> delete db w = (Inl ProductionDeleteGuard, w))
   \<and> (dbName db \<noteq> ''digitallinguistics'' \<longrightarrow>
        propagates db w False (delete db w)
      \<and> new_events w (snd (delete db w))
          = [DatabaseDeleteCall (fst (database_delete db (store w)))])
   \<and> propagates db w False (addMany db c pk items w)
   \<and> propagates db w False (getOne db c pk ident w)
   \<and> new_events w (snd (getOne db c pk ident w))
       = [ReadCall c ident pk (fst (item_read db c ident pk (store w)))]
   \<and> getLanguage db ident w = getOne db Metadata ''Language'' ident w
   \<and> getLexeme db pk ident w = getOne db Data pk ident w
   \<and> getProject db ident w = getOne db Metadata ''Project'' ident w
   \<and> getReference db ident w = getOne db Metadata ''BibliographicReference'' ident w
   \<and> propagates db w
        (length ids \<le> 100
         \<and> (\<exists>results. fst (items_bulk db c (read_operations pk ids) True (store w)) = Inr results
               \<and> length ids < length results))
        (getMany db c pk ids w)
   \<and> propagates db w
        (case types db type of
           None \<Rightarrow> True
         | Some c' \<Rightarrow>
             fst (query_fetchAll db c' (count_query (container_name c') type fo) (store w))
               = Inr [])
        (count db type fo w)
   \<and> (types db type = None \<longrightarrow> count db type fo w = (Inl TypeError, w))
   \<and> (\<forall>c'. types db type = Some c' \<longrightarrow>
        new_events w (snd (count db type fo w))
          = [FetchAllCall c' (count_query (container_name c') type fo)
               (fst (query_fetchAll db c' (count_query (container_name c') type fo) (store w)))])
   \<and> propagates db w False (getLanguages db fo w)
   \<and> new_events w (snd (getLanguages db fo w))
       = [IterateCall Metadata (getLanguages_query fo)
            (fst (query_iterate db Metadata (getLanguages_query fo) (store w)))]
   \<and> propagates db w False (getLexemes db fo w)
   \<and> new_events w (snd (getLexemes db fo w))
       = [IterateCall Data (getLexemes_query fo)
            (fst (query_iterate db Data (getLexemes_query fo) (store w)))]
   \<and> propagates db w False (getProjects db po w)
   \<and> new_events w (snd (getProjects db po w))
       = [IterateCall Metadata (getProjects_query po)
            (fst (query_iterate db Metadata (getProjects_query po) (store w)))]
   \<and> propagates db w False (getReferences db w)
   \<and> new_events w (snd (getReferences db w))
       = [IterateCall Metadata getReferences_query
            (fst (query_iterate db Metadata getReferences_query (store w)))]
   \<and> propagates db w False (setup_database db w)
   \<and> propagates db w
        (\<exists>resources. fst (items_readAll db c (store w)) = Inr resources \<and> lacking c resources)
        (clearContainer db c w)
   \<and> (case clear db schedule w of
         (res, w') \<Rightarrow>
           events w' = events w @ new_events w w'
         \<and> replay db (store w) (new_events w w') = Some (store w')
         \<and> (\<forall>t. res = Inl t \<longrightarrow> thrown_ok t (new_events w w'))
         \<and> (\<forall>u. res = Inr u \<longrightarrow> rejections (new_events w w') = []))"
proof -
  have v1: "validate db d = Some e \<longrightarrow>
        addOne db c d w = (Inl (ValidationError e), w)
      \<and> seedOne db c d w = (Inl (ValidationError e), w)
      \<and> seedMany db c n d w = (Inl (ValidationError e), w)"
    by (simp add: addOne_def seedOne_def seedMany_def)
  have v2: "validate db d1 = None \<longrightarrow>
        \<not> isl (fst (addOne db c d1 w))
      \<and> events (snd (addOne db c d1 w)) = events w @ new_events w (snd (addOne db c d1 w))
      \<and> new_events w (snd (addOne db c d1 w))
          = [CreateCall c d1 (fst (fst (items_create db c d1 (store w))))]
      \<and> replay db (store w) (new_events w (snd (addOne db c d1 w)))
          = Some (store (snd (addOne db c d1 w)))
      \<and> propagates db w False (seedOne db c d1 w)
      \<and> new_events w (snd (seedOne db c d1 w))
          = [CreateCall c d1 (fst (fst (items_create db c d1 (store w))))]
      \<and> propagates db w False (seedMany db c n d1 w)"
    using addOne_calls[of db d1 c w] seedOne_calls[of db d1 w c]
      seedOne_propagates[of db d1 w c] seedMany_propagates[of db d1 w c n]
    by blast
  have g1: "dbName db = ''digitallinguistics'' \<longrightarrow> delete db w = (Inl ProductionDeleteGuard, w)"
    by (simp add: delete_def)
  have g2: "dbName db \<noteq> ''digitallinguistics'' \<longrightarrow>
        propagates db w False (delete db w)
      \<and> new_events w (snd (delete db w))
          = [DatabaseDeleteCall (fst (database_delete db (store w)))]"
    using delete_propagates[of db w] delete_calls[of db w] by blast
  have wr: "getLanguage db ident w = getOne db Metadata ''Language'' ident w
   \<and> getLexeme db pk ident w = getOne db Data pk ident w
   \<and> getProject db ident w = getOne db Metadata ''Project'' ident w
   \<and> getReference db ident w = getOne db Metadata ''BibliographicReference'' ident w"
    by (simp add: getLanguage_def getLexeme_def getProject_def getReference_def)
  have cn: "types db type = None \<longrightarrow> count db type fo w = (Inl TypeError, w)"
    by (simp add: count_unknown_type)
  have cc: "\<forall>c'. types db type = Some c' \<longrightarrow>
        new_events w (snd (count db type fo w))
          = [FetchAllCall c' (count_query (container_name c') type fo)
               (fst (query_fetchAll db c' (count_query (container_name c') type fo) (store w)))]"
    by (simp add: count_calls)
  have l1: "propagates db w False (getLanguages db fo w)
   \<and> new_events w (snd (getLanguages db fo w))
       = [IterateCall Metadata (getLanguages_query fo)
            (fst (query_iterate db Metadata (getLanguages_query fo) (store w)))]"
    by (simp add: getLanguages_def list_query_propagates list_query_events)
  have l2: "propagates db w False (getLexemes db fo w)
   \<and> new_events w (snd (getLexemes db fo w))
       = [IterateCall Data (getLexemes_query fo)
            (fst (query_iterate db Data (getLexemes_query fo) (store w)))]"
    by (simp add: getLexemes_def list_query_propagates list_query_events)
  have l3: "propagates db w False (getProjects db po w)
   \<and> new_events w (snd (getProjects db po w))
       = [IterateCall Metadata (getProjects_query po)
            (fst (query_iterate db Metadata (getProjects_query po) (store w)))]"
    by (simp add: getProjects_def list_query_propagates list_query_events)
  have l4: "propagates db w False (getReferences db w)
   \<and> new_events w (snd (getReferences db w))
       = [IterateCall Metadata getReferences_query
            (fst (query_iterate db Metadata getReferences_query (store w)))]"
    by (simp add: getReferences_def list_query_propagates list_query_events)
  have x: "case clear db schedule w of
         (res, w') \<Rightarrow>
           events w' = events w @ new_events w w'
         \<and> replay db (store w) (new_events w w') = Some (store w')
         \<and> (\<forall>t. res = Inl t \<longrightarrow> thrown_ok t (new_events w w'))
         \<and> (\<forall>u. res = Inr u \<longrightarrow> rejections (new_events w w') = [])"
    using clear_ok[of db schedule w] by (cases "clear db schedule w") simp
  note rest = addMany_propagates[of db w c pk items] getOne_propagates[of db w c pk ident]
    getOne_calls[of w db c pk ident] getMany_propagates[of db w ids c pk]
    count_propagates[of db w type fo] setup_database_propagates[of db w]
    clearContainer_propagates[of db w c]
  from v1 v2 g1 g2 wr cn cc l1 l2 l3 l4 x rest show ?thesis by blast
qed

theorem operations_return_or_throw_witness:
  "addOne (failing_doc_db ''digitallinguistics'') Data
      \<lparr>item_id = Some '''', item_language = None, item_type = None\<rparr> (doc_world [])
     = (Inl (ValidationError \<lparr>err_code = None, err_message = ''Invalid ID''\<rparr>), doc_world [])
   \<and> seedOne (failing_doc_db ''digitallinguistics'') Data
      \<lparr>item_id = Some '''', item_language = None, item_type = None\<rparr> (doc_world [])
     = (Inl (ValidationError \<lparr>err_code = None, err_message = ''Invalid ID''\<rparr>), doc_world [])
   \<and> fst (addOne (failing_doc_db ''digitallinguistics'') Data
            \<lparr>item_id = Some ''a'', item_language = Some (Some ''en''),
              item_type = Some ''Lexeme''\<rparr> (doc_world []))
     = Inr \<lparr>data = None, message = Some ''Service Unavailable'', status = Some 503\<rparr>
   \<and> delete (failing_doc_db ''digitallinguistics'') (doc_world [])
     = (Inl ProductionDeleteGuard, doc_world [])
   \<and> propagates (failing_doc_db ''digitallinguistics'') (doc_world []) False
        (getOne (failing_doc_db ''digitallinguistics'') Data ''en'' ''a'' (doc_world []))
   \<and> fst (getOne (failing_doc_db ''digitallinguistics'') Data ''en'' ''a'' (doc_world []))
     = Inl (ProviderError unavailable)
   \<and> count (failing_doc_db ''digitallinguistics'') ''Unknown''
        \<lparr>language = Undefined, project = Undefined\<rparr> (doc_world [])
     = (Inl TypeError, doc_world [])
   \<and> fst (clearContainer (doc_db ''test'') Data
            (doc_world [\<lparr>item_id = Some ''b'', item_language = None,
                         item_type = Some ''Language''\<rparr>]))
     = Inl TypeError
   \<and> fst (clear (doc_db ''test'') [True, False, True]
            (doc_world [\<lparr>item_id = Some ''a'', item_language = Some (Some ''en''),
                         item_type = Some ''Lexeme''\<rparr>]))
     = Inr ()
   \<and> fst (clear (failing_doc_db ''digitallinguistics'') [False] (doc_world []))
     = Inl (ProviderError unavailable)
   \<and> fst (setup_database (doc_db ''test'') (doc_world [])) = Inr ()
   \<and> fst (seedMany (doc_db ''test'') Data 2
            \<lparr>item_id = Some ''a'', item_language = Some (Some ''en''),
              item_type = Some ''Lexeme''\<rparr> (doc_world []))
     = Inr [\<lparr>statusCode = 201,
              resourceBody = Some \<lparr>item_id = None, item_language = Some (Some ''en''),
                                   item_type = Some ''Lexeme''\<rparr>\<rparr>,
            \<lparr>statusCode = 201,
              resourceBody = Some \<lparr>item_id = None, item_language = Some (Some ''en''),
                                   item_type = Some ''Lexeme''\<rparr>\<rparr>]
   \<and> new_events (doc_world [])
        (snd (addOne (failing_doc_db ''digitallinguistics'') Data
                \<lparr>item_id = Some ''a'', item_language = Some (Some ''en''),
                  item_type = Some ''Lexeme''\<rparr> (doc_world [])))
     = [CreateCall Data
          \<lparr>item_id = Some ''a'', item_language = Some (Some ''en''),
            item_type = Some ''Lexeme''\<rparr> (Inl unavailable)]
   \<and> propagates (doc_db ''test'') (doc_world []) False
        (delete (doc_db ''test'') (doc_world []))
   \<and> new_events (doc_world []) (snd (delete (doc_db ''test'') (doc_world [])))
     = [DatabaseDeleteCall (Inr ())]
   \<and> new_events (doc_world [])
        (snd (count (doc_db ''test'') ''Lexeme''
                \<lparr>language = Undefined, project = Undefined\<rparr> (doc_world [])))
     = [FetchAllCall Data
          (count_query (container_name Data) ''Lexeme''
             \<lparr>language = Undefined, project = Undefined\<rparr>)
          (Inr [\<lparr>dollar1 = Some 0\<rparr>])]
   \<and> thrown_ok TypeError
        (new_events
           (doc_world [\<lparr>item_id = Some ''b'', item_language = None,
                        item_type = Some ''Language''\<rparr>])
           (snd (clear (doc_db ''test'') [False]
                   (doc_world [\<lparr>item_id = Some ''b'', item_language = None,
                                item_type = Some ''Language''\<rparr>]))))
   \<and> rejections
        (new_events
           (doc_world [\<lparr>item_id = Some ''a'', item_language = Some (Some ''en''),
                        item_type = Some ''Lexeme''\<rparr>])
           (snd (clear (doc_db ''test'') [True, False, True]
                   (doc_world [\<lparr>item_id = Some ''a'', item_language = Some (Some ''en''),
                                item_type = Some ''Lexeme''\<rparr>]))))
     = []"
proof -
  let ?db = "failing_doc_db ''digitallinguistics''"
  let ?w = "doc_world []"
  let ?bad = "\<lparr>item_id = Some '''', item_language = None, item_type = None\<rparr>"
  let ?ok = "\<lparr>item_id = Some ''a'', item_language = Some (Some ''en''),
              item_type = Some ''Lexeme''\<rparr>"
  let ?fo = "\<lparr>language = Undefined, project = Undefined\<rparr>"
  let ?e = "\<lparr>err_code = None, err_message = ''Invalid ID''\<rparr>"
  have h1: "validate ?db ?bad = Some ?e" by (simp add: failing_doc_db_def mem_validate_def)
  have h2: "validate ?db ?ok = None" by (simp add: failing_doc_db_def mem_validate_def)
  have h3: "dbName ?db = ''digitallinguistics''" by (simp add: failing_doc_db_def)
  have h4: "types ?db ''Unknown'' = None" by (simp add: failing_doc_db_def mem_types_def)
  note inst = operations_return_or_throw [where db = ?db and d = ?bad and e = ?e and c = Data
      and w = ?w and ?d1.0 = ?ok and n = 2 and pk = "''en''" and items = "[?ok]"
      and ident = "''a''" and ids = "[''a'']" and type = "''Unknown''" and fo = ?fo
      and po = "\<lparr>user = None\<rparr>" and schedule = "[False]"]
  from inst h1 have c1: "addOne ?db Data ?bad ?w = (Inl (ValidationError ?e), ?w)"
    and c2: "seedOne ?db Data ?bad ?w = (Inl (ValidationError ?e), ?w)" by blast+
  from inst h3 have c4: "delete ?db ?w = (Inl ProductionDeleteGuard, ?w)" by blast
  from inst have c5: "propagates ?db ?w False (getOne ?db Data ''en'' ''a'' ?w)" by blast
  from inst h4 have c7: "count ?db ''Unknown'' ?fo ?w = (Inl TypeError, ?w)" by blast
  have c3: "fst (addOne ?db Data ?ok ?w)
     = Inr \<lparr>data = None, message = Some ''Service Unavailable'', status = Some 503\<rparr>"
    by code_simp
  have c6: "fst (getOne ?db Data ''en'' ''a'' ?w) = Inl (ProviderError unavailable)"
    by code_simp
  have c8: "fst (clearContainer (doc_db ''test'') Data
            (doc_world [\<lparr>item_id = Some ''b'', item_language = None,
                         item_type = Some ''Language''\<rparr>])) = Inl TypeError"
    by code_simp
  have c9: "fst (clear (doc_db ''test'') [True, False, True] (doc_world [?ok])) = Inr ()"
    by code_simp
  have c10: "fst (clear ?db [False] ?w) = Inl (ProviderError unavailable)"
    by code_simp
  have c11: "fst (setup_database (doc_db ''test'') ?w) = Inr ()"
    by code_simp
  have c12: "fst (seedMany (doc_db ''test'') Data 2 ?ok ?w)
     = Inr [\<lparr>statusCode = 201,
              resourceBody = Some \<lparr>item_id = None, item_language = Some (Some ''en''),
                                   item_type = Some ''Lexeme''\<rparr>\<rparr>,
            \<lparr>statusCode = 201,
              resourceBody = Some \<lparr>item_id = None, item_language = Some (Some ''en''),
                                   item_type = Some ''Lexeme''\<rparr>\<rparr>]"
    by code_simp
  let ?D = "doc_db ''test''"
  let ?nl = "\<lparr>item_id = Some ''b'', item_language = None, item_type = Some ''Language''\<rparr>"
  have h5: "items_create ?db Data ?ok (store ?w) = ((Inl unavailable, ?ok), [])"
    by (simp add: failing_doc_db_def doc_world_def)
  from inst h2 have "new_events ?w (snd (addOne ?db Data ?ok ?w))
      = [CreateCall Data ?ok (fst (fst (items_create ?db Data ?ok (store ?w))))]" by blast
  with h5 have c13: "new_events ?w (snd (addOne ?db Data ?ok ?w))
      = [CreateCall Data ?ok (Inl unavailable)]" by simp
  have h6: "dbName ?D \<noteq> ''digitallinguistics''" by (simp add: doc_db_def)
  have h7: "database_delete ?D (store ?w) = (Inr (), [])" by (simp add: doc_db_def)
  have h8: "types ?D ''Lexeme'' = Some Data" by (simp add: doc_db_def mem_types_def)
  have h9: "query_fetchAll ?D Data (count_query (container_name Data) ''Lexeme'' ?fo) (store ?w)
      = (Inr [\<lparr>dollar1 = Some 0\<rparr>], [])" by (simp add: doc_db_def doc_world_def)
  note inst2 = operations_return_or_throw [where db = ?D and d = ?bad and e = ?e and c = Data
      and w = ?w and ?d1.0 = ?ok and n = 2 and pk = "''en''" and items = "[?ok]"
      and ident = "''a''" and ids = "[''a'']" and type = "''Lexeme''" and fo = ?fo
      and po = "\<lparr>user = None\<rparr>" and schedule = "[False]"]
  from inst2 h6 have c14: "propagates ?D ?w False (delete ?D ?w)"
    and "new_events ?w (snd (delete ?D ?w))
      = [DatabaseDeleteCall (fst (database_delete ?D (store ?w)))]" by blast+
  with h7 have c15: "new_events ?w (snd (delete ?D ?w)) = [DatabaseDeleteCall (Inr ())]"
    by simp
  from inst2 h8 have "new_events ?w (snd (count ?D ''Lexeme'' ?fo ?w))
      = [FetchAllCall Data (count_query (container_name Data) ''Lexeme'' ?fo)
           (fst (query_fetchAll ?D Data (count_query (container_name Data) ''Lexeme'' ?fo)
                   (store ?w)))]" by blast
  with h9 have c16: "new_events ?w (snd (count ?D ''Lexeme'' ?fo ?w))
      = [FetchAllCall Data (count_query (container_name Data) ''Lexeme'' ?fo)
           (Inr [\<lparr>dollar1 = Some 0\<rparr>])]" by simp
  have h10: "fst (clear ?D [False] (doc_world [?nl])) = Inl TypeError" by code_simp
  note inst3 = operations_return_or_throw [where db = ?D and d = ?bad and e = ?e and c = Data
      and w = "doc_world [?nl]" and ?d1.0 = ?ok and n = 2 and pk = "''en''" and items = "[?ok]"
      and ident = "''a''" and ids = "[''a'']" and type = "''Lexeme''" and fo = ?fo
      and po = "\<lparr>user = None\<rparr>" and schedule = "[False]"]
  from inst3 have "case clear ?D [False] (doc_world [?nl]) of
         (res, w') \<Rightarrow>
           events w' = events (doc_world [?nl]) @ new_events (doc_world [?nl]) w'
         \<and> replay ?D (store (doc_world [?nl])) (new_events (doc_world [?nl]) w') = Some (store w')
         \<and> (\<forall>t. res = Inl t \<longrightarrow> thrown_ok t (new_events (doc_world [?nl]) w'))
         \<and> (\<forall>u. res = Inr u \<longrightarrow> rejections (new_events (doc_world [?nl]) w') = [])"
    by (elim conjE)
  with h10 have c17: "thrown_ok TypeError
      (new_events (doc_world [?nl]) (snd (clear ?D [False] (doc_world [?nl]))))"
    by (cases "clear ?D [False] (doc_world [?nl])") simp
  note inst4 = operations_return_or_throw [where db = ?D and d = ?bad and e = ?e and c = Data
      and w = "doc_world [?ok]" and ?d1.0 = ?ok and n = 2 and pk = "''en''" and items = "[?ok]"
      and ident = "''a''" and ids = "[''a'']" and type = "''Lexeme''" and fo = ?fo
      and po = "\<lparr>user = None\<rparr>" and schedule = "[True, False, True]"]
  from inst4 have "case clear ?D [True, False, True] (doc_world [?ok]) of
         (res, w') \<Rightarrow>
           events w' = events (doc_world [?ok]) @ new_events (doc_world [?ok]) w'
         \<and> replay ?D (store (doc_world [?ok])) (new_events (doc_world [?ok]) w') = Some (store w')
         \<and> (\<forall>t. res = Inl t \<longrightarrow> thrown_ok t (new_events (doc_world [?ok]) w'))
         \<and> (\<forall>u. res = Inr u \<longrightarrow> rejections (new_events (doc_world [?ok]) w') = [])"
    by (elim conjE)
  with c9 have c18: "rejections
      (new_events (doc_world [?ok]) (snd (clear ?D [True, False, True] (doc_world [?ok])))) = []"
    by (cases "clear ?D [True, False, True] (doc_world [?ok])") simp
  from c1 c2 c3 c4 c5 c6 c7 c8 c9 c10 c11 c12 c13 c14 c15 c16 c17 c18 show ?thesis by blast
qed

section \<open>The shape of the responses\<close>

lemma list_query_response:
  "fst (list_query db c q w) = Inr r \<Longrightarrow>
     status r = Some (default_status db) \<and> message r = None
     \<and> (\<exists>pages. data r = Some (Resources (concat pages)))"
  by (auto simp: list_query_def DatabaseResponse_def split: prod.splits sum.splits)

lemma addMany_batches_response:
  "fst (addMany_batches db c pk batches results w) = Inr r \<Longrightarrow>
     status r \<noteq> None \<and> data r \<noteq> None \<and> message r = None"
proof (induction batches arbitrary: results w)
  case Nil
  then show ?case by (auto simp: DatabaseResponse_def)
next
  case (Cons b bs)
  then show ?case
    by (auto simp: DatabaseResponse_def split: prod.splits sum.splits if_splits)
qed

text \<open>
  Claim C8. Every response returned by \<^verbatim>\<open>count\<close>, the four list queries, \<^verbatim>\<open>addMany\<close>,
  \<^verbatim>\<open>getMany\<close>, \<^verbatim>\<open>getOne\<close> and \<^verbatim>\<open>addOne\<close> has a status. The responses of \<^verbatim>\<open>count\<close>, the
  list queries and \<^verbatim>\<open>addMany\<close> have data and no message; \<^verbatim>\<open>getMany\<close> has a message, and no
  data, only in its 400 response; \<^verbatim>\<open>getOne\<close> never has a message; \<^verbatim>\<open>addOne\<close> has a message
  exactly when the create was rejected, and then no data. \<^verbatim>\<open>getOne\<close> and \<^verbatim>\<open>addOne\<close> have
  data exactly when the provider resolved with a resource.
\<close>

theorem responses_normalized:
  fixes db :: "('s, 'z item_scheme) database"
  shows
  "(fst (count db type fo w) = Inr r1 \<longrightarrow>
      status r1 \<noteq> None \<and> data r1 \<noteq> None \<and> message r1 = None)
   \<and> (fst (getLanguages db fo w) = Inr r2 \<longrightarrow>
      status r2 \<noteq> None \<and> data r2 \<noteq> None \<and> message r2 = None)
   \<and> (fst (getLexemes db fo w) = Inr r3 \<longrightarrow>
      status r3 \<noteq> None \<and> data r3 \<noteq> None \<and> message r3 = None)
   \<and> (fst (getProjects db po w) = Inr r4 \<longrightarrow>
      status r4 \<noteq> None \<and> data r4 \<noteq> None \<and> message r4 = None)
   \<and> (fst (getReferences db w) = Inr r5 \<longrightarrow>
      status r5 \<noteq> None \<and> data r5 \<noteq> None \<and> message r5 = None)
   \<and> (fst (addMany db c pk items w) = Inr r6 \<longrightarrow>
      status r6 \<noteq> None \<and> data r6 \<noteq> None \<and> message r6 = None)
   \<and> (fst (getMany db c pk ids w) = Inr r7 \<longrightarrow>
      status r7 \<noteq> None
      \<and> (if 100 < length ids then status r7 = Some 400 \<and> message r7 \<noteq> None \<and> data r7 = None
          else message r7 = None \<and> data r7 \<noteq> None))
   \<and> (fst (getOne db c pk ident w) = Inr r8 \<longrightarrow>
      status r8 \<noteq> None \<and> message r8 = None
      \<and> (data r8 \<noteq> None
           \<longleftrightarrow> (\<exists>x. fst (item_read db c ident pk (store w)) = Inr x \<and> resource x \<noteq> None)))
   \<and> (fst (addOne db c d w) = Inr r9 \<longrightarrow>
      status r9 \<noteq> None
      \<and> (message r9 \<noteq> None
           \<longleftrightarrow> (\<exists>err. fst (fst (items_create db c d (store w))) = Inl err))
      \<and> (message r9 \<noteq> None \<longrightarrow> data r9 = None)
      \<and> (data r9 \<noteq> None
           \<longleftrightarrow> (\<exists>x. fst (fst (items_create db c d (store w))) = Inr x \<and> resource x \<noteq> None)))"
proof -
  have b1: "fst (count db type fo w) = Inr r1 \<longrightarrow>
      status r1 \<noteq> None \<and> data r1 \<noteq> None \<and> message r1 = None"
    by (auto simp: count_def Let_def DatabaseResponse_def
        split: option.splits prod.splits sum.splits list.splits)
  have b2: "fst (getLanguages db fo w) = Inr r2 \<longrightarrow>
      status r2 \<noteq> None \<and> data r2 \<noteq> None \<and> message r2 = None"
    by (auto simp: getLanguages_def dest: list_query_response)
  have b3: "fst (getLexemes db fo w) = Inr r3 \<longrightarrow>
      status r3 \<noteq> None \<and> data r3 \<noteq> None \<and> message r3 = None"
    by (auto simp: getLexemes_def dest: list_query_response)
  have b4: "fst (getProjects db po w) = Inr r4 \<longrightarrow>
      status r4 \<noteq> None \<and> data r4 \<noteq> None \<and> message r4 = None"
    by (auto simp: getProjects_def dest: list_query_response)
  have b5: "fst (getReferences db w) = Inr r5 \<longrightarrow>
      status r5 \<noteq> None \<and> data r5 \<noteq> None \<and> message r5 = None"
    by (auto simp: getReferences_def dest: list_query_response)
  have b6: "fst (addMany db c pk items w) = Inr r6 \<longrightarrow>
      status r6 \<noteq> None \<and> data r6 \<noteq> None \<and> message r6 = None"
    using addMany_batches_response[of db c pk _ "[]" w r6]
    by (simp add: addMany_def chunk_def bulkLimit_def)
  have b7: "fst (getMany db c pk ids w) = Inr r7 \<longrightarrow>
      status r7 \<noteq> None
      \<and> (if 100 < length ids then status r7 = Some 400 \<and> message r7 \<noteq> None \<and> data r7 = None
          else message r7 = None \<and> data r7 \<noteq> None)"
    by (auto simp: getMany_def Let_def DatabaseResponse_def bulkLimit_def
        split: prod.splits sum.splits if_splits)
  have b8: "fst (getOne db c pk ident w) = Inr r8 \<longrightarrow>
      status r8 \<noteq> None \<and> message r8 = None
      \<and> (data r8 \<noteq> None
           \<longleftrightarrow> (\<exists>x. fst (item_read db c ident pk (store w)) = Inr x \<and> resource x \<noteq> None))"
    by (auto simp: getOne_def dispatch_def DatabaseResponse_def split: prod.splits sum.splits)
  have b9: "fst (addOne db c d w) = Inr r9 \<longrightarrow>
      status r9 \<noteq> None
      \<and> (message r9 \<noteq> None
           \<longleftrightarrow> (\<exists>err. fst (fst (items_create db c d (store w))) = Inl err))
      \<and> (message r9 \<noteq> None \<longrightarrow> data r9 = None)
      \<and> (data r9 \<noteq> None
           \<longleftrightarrow> (\<exists>x. fst (fst (items_create db c d (store w))) = Inr x \<and> resource x \<noteq> None))"
    by (auto simp: addOne_def dispatch_def DatabaseResponse_def Let_def
        split: option.splits prod.splits sum.splits)
  from b1 b2 b3 b4 b5 b6 b7 b8 b9 show ?thesis by blast
qed

theorem responses_normalized_witness:
  "fst (count (mem_db ''test'') ''Lexeme'' \<lparr>language = Undefined, project = Undefined\<rparr>
          (mem_world [\<lparr>item_id = Some ''a''\<rparr>]))
     = Inr \<lparr>data = Some (Count (Some 1)), message = None, status = Some 200\<rparr>
   \<and> fst (getLanguages (mem_db ''test'') \<lparr>language = Undefined, project = Undefined\<rparr>
          (mem_world [\<lparr>item_id = Some ''a''\<rparr>]))
     = Inr \<lparr>data = Some (Resources [\<lparr>item_id = Some ''a''\<rparr>]), message = None,
             status = Some 200\<rparr>
   \<and> fst (getLexemes (mem_db ''test'') \<lparr>language = Undefined, project = Undefined\<rparr>
          (mem_world [\<lparr>item_id = Some ''a''\<rparr>]))
     = Inr \<lparr>data = Some (Resources [\<lparr>item_id = Some ''a''\<rparr>]), message = None,
             status = Some 200\<rparr>
   \<and> fst (getProjects (mem_db ''test'') \<lparr>user = None\<rparr> (mem_world [\<lparr>item_id = Some ''a''\<rparr>]))
     = Inr \<lparr>data = Some (Resources [\<lparr>item_id = Some ''a''\<rparr>]), message = None,
             status = Some 200\<rparr>
   \<and> fst (getReferences (mem_db ''test'') (mem_world [\<lparr>item_id = Some ''a''\<rparr>]))
     = Inr \<lparr>data = Some (Resources [\<lparr>item_id = Some ''a''\<rparr>]), message = None,
             status = Some 200\<rparr>
   \<and> fst (addMany (mem_db ''test'') Data ''p'' [\<lparr>item_id = Some ''b''\<rparr>]
          (mem_world [\<lparr>item_id = Some ''a''\<rparr>]))
     = Inr \<lparr>data = Some (Bodies [Some \<lparr>item_id = Some ''b''\<rparr>]), message = None,
             status = Some 201\<rparr>
   \<and> fst (getMany (mem_db ''test'') Data ''p'' [''a''] (mem_world [\<lparr>item_id = Some ''a''\<rparr>]))
     = Inr \<lparr>data = Some (Entries [\<lparr>entry_data = Some \<lparr>item_id = Some ''a''\<rparr>,
                                     entry_id = Some ''a'', entry_status = 200\<rparr>]),
             message = None, status = Some 207\<rparr>
   \<and> fst (getOne (mem_db ''test'') Data ''p'' ''b'' (mem_world [\<lparr>item_id = Some ''a''\<rparr>]))
     = Inr \<lparr>data = None, message = None, status = Some 404\<rparr>
   \<and> fst (addOne (mem_db ''test'') Data \<lparr>item_id = Some ''a''\<rparr>
          (mem_world [\<lparr>item_id = Some ''a''\<rparr>]))
     = Inr \<lparr>data = None, message = Some ''Item with ID a already exists.'',
             status = Some 409\<rparr>
   \<and> (\<exists>err. fst (fst (items_create (mem_db ''test'') Data \<lparr>item_id = Some ''a''\<rparr>
                         (store (mem_world [\<lparr>item_id = Some ''a''\<rparr>])))) = Inl err)"
proof -
  let ?db = "mem_db ''test''"
  let ?a = "\<lparr>item_id = Some ''a''\<rparr>"
  let ?w = "mem_world [?a]"
  let ?fo = "\<lparr>language = Undefined, project = Undefined\<rparr>"
  let ?r1 = "\<lparr>data = Some (Count (Some 1)), message = None, status = Some 200\<rparr> :: item response"
  let ?rl = "\<lparr>data = Some (Resources [?a]), message = None, status = Some 200\<rparr>"
  let ?r6 = "\<lparr>data = Some (Bodies [Some \<lparr>item_id = Some ''b''\<rparr>]), message = None,
             status = Some 201\<rparr>"
  let ?r7 = "\<lparr>data = Some (Entries [\<lparr>entry_data = Some ?a,
                                     entry_id = Some ''a'', entry_status = 200\<rparr>]),
             message = None, status = Some 207\<rparr>"
  let ?r8 = "\<lparr>data = None, message = None, status = Some 404\<rparr> :: item response"
  let ?r9 = "\<lparr>data = None, message = Some ''Item with ID a already exists.'',
             status = Some 409\<rparr> :: item response"
  have h1: "fst (count ?db ''Lexeme'' ?fo ?w) = Inr ?r1" by code_simp
  have h2: "fst (getLanguages ?db ?fo ?w) = Inr ?rl" by code_simp
  have h3: "fst (getLexemes ?db ?fo ?w) = Inr ?rl" by code_simp
  have h4: "fst (getProjects ?db \<lparr>user = None\<rparr> ?w) = Inr ?rl" by code_simp
  have h5: "fst (getReferences ?db ?w) = Inr ?rl" by code_simp
  have h6: "fst (addMany ?db Data ''p'' [\<lparr>item_id = Some ''b''\<rparr>] ?w) = Inr ?r6" by code_simp
  have h7: "fst (getMany ?db Data ''p'' [''a''] ?w) = Inr ?r7" by code_simp
  have h8: "fst (getOne ?db Data ''p'' ''b'' ?w) = Inr ?r8" by code_simp
  have h9: "fst (addOne ?db Data ?a ?w) = Inr ?r9" by code_simp
  note inst = responses_normalized [where db = ?db and type = "''Lexeme''" and fo = ?fo
      and w = ?w and ?r1.0 = ?r1 and ?r2.0 = ?rl and ?r3.0 = ?rl
      and po = "\<lparr>user = None\<rparr>" and ?r4.0 = ?rl and ?r5.0 = ?rl and c = Data
      and pk = "''p''" and items = "[\<lparr>item_id = Some ''b''\<rparr>]" and ?r6.0 = ?r6
      and ids = "[''a'']" and ?r7.0 = ?r7 and ident = "''b''" and ?r8.0 = ?r8
      and d = ?a and ?r9.0 = ?r9]
  from inst h9 have "\<exists>err. fst (fst (items_create ?db Data ?a (store ?w))) = Inl err"
    by simp
  with h1 h2 h3 h4 h5 h6 h7 h8 h9 show ?thesis by blast
qed

end
